theory Spec2Isabelle
  imports Main
begin

section \<open>Strings\<close>

text \<open>
  A Python \<^verbatim>\<open>str\<close> is a sequence of Unicode code points; it is modelled as the list of
  those code points. \<open>lit\<close> turns a literal of the source into that list.
\<close>

type_synonym pystr = "nat list"

definition lit :: "string \<Rightarrow> pystr" where
  "lit s = map of_char s"

abbreviation NL :: pystr where
  "NL \<equiv> [10]"

abbreviation TAB :: pystr where
  "TAB \<equiv> [9]"

text \<open>
  \<^verbatim>\<open>str.isspace\<close> on one code point: the characters \<^verbatim>\<open>str.strip()\<close> removes when it is
  called without an argument (tab to carriage return, the four separators 0x1C to 0x1F,
  space, NEL, no-break space and the Unicode space separators).
\<close>

definition isspace :: "nat \<Rightarrow> bool" where
  "isspace c \<longleftrightarrow>
     (9 \<le> c \<and> c \<le> 13) \<or> (28 \<le> c \<and> c \<le> 32) \<or> c = 133 \<or> c = 160 \<or> c = 5760 \<or>
     (8192 \<le> c \<and> c \<le> 8202) \<or> c = 8232 \<or> c = 8233 \<or> c = 8239 \<or> c = 8287 \<or> c = 12288"

definition strip :: "pystr \<Rightarrow> pystr" where
  "strip s = rev (dropWhile isspace (rev (dropWhile isspace s)))"

text \<open>
  \<^verbatim>\<open>str.isalnum\<close>: the string is not empty and every character is a letter or a digit.
  Below 128 these are the ASCII digits and letters. Above, the answer comes from the
  Unicode character database of the interpreter, which is a parameter \<open>uni\<close> here.
\<close>

definition ascii_alnum :: "nat \<Rightarrow> bool" where
  "ascii_alnum c \<longleftrightarrow> (48 \<le> c \<and> c \<le> 57) \<or> (65 \<le> c \<and> c \<le> 90) \<or> (97 \<le> c \<and> c \<le> 122)"

definition isalnum :: "(nat \<Rightarrow> bool) \<Rightarrow> pystr \<Rightarrow> bool" where
  "isalnum uni s \<longleftrightarrow> s \<noteq> [] \<and> list_all (\<lambda>c. if c < 128 then ascii_alnum c else uni c) s"

section \<open>Data model\<close>

text \<open>The colour constants of \<^verbatim>\<open>printcolors\<close> that \<^verbatim>\<open>main.py\<close> uses.\<close>

datatype color = RED | YELLOW | GREEN | CYAN

text \<open>
  The methods of the \<^verbatim>\<open>Osintgram\<close> object that the registry binds. The class itself is
  not part of \<^verbatim>\<open>main.py\<close>; what a method does is a parameter of the model.
\<close>

datatype meth =
    get_addrs | clear_cache | get_captions | get_comment_data | get_total_comments
  | get_followers | get_followings | get_fwersemail | get_fwingsemail | get_fwersnumber
  | get_fwingsnumber | get_hashtags | get_user_info | get_total_likes | get_media_type
  | get_photo_description | get_user_photo | get_user_propic | get_user_stories
  | get_people_tagged_by_user | change_target | get_people_who_commented
  | get_people_who_tagged

text \<open>
  The callables stored in the registry: \<^verbatim>\<open>print_commands\<close>, \<^verbatim>\<open>sys.exit\<close>, a bound method
  \<^verbatim>\<open>api.m\<close>, and \<^verbatim>\<open>lambda: print_full_data(api.m(), title)\<close>.
\<close>

datatype action = PrintCommands | SysExit | Bound meth | FullData meth pystr

text \<open>
  What the program does that can be observed, in order: a call of \<^verbatim>\<open>pc.printout\<close> with
  its text and its colour argument (\<open>None\<close> when the call passes no colour), a call of
  \<^verbatim>\<open>print\<close>, and the call of a callable taken from the registry.
\<close>

datatype event = Printout pystr "color option" | Print pystr | Invoke action

text \<open>
  How a call ends: it returns a value, raises an ordinary exception (an instance of
  \<^verbatim>\<open>Exception\<close>, kept as its \<^verbatim>\<open>str()\<close> text), or raises \<^verbatim>\<open>SystemExit\<close> with a status.
  Exceptions outside \<^verbatim>\<open>Exception\<close> other than \<^verbatim>\<open>SystemExit\<close> are not modelled.
\<close>

datatype 'a result = Return 'a | Raise pystr | Exit int

text \<open>
  The collaborator object: its two output flags and the rest of its state, which this
  layer never looks at.
\<close>

record 'w osintgram =
  writeFile :: bool
  jsonDump :: bool
  hidden :: 'w

text \<open>The parsed command line (\<^verbatim>\<open>args\<close> of \<^verbatim>\<open>main\<close>).\<close>

record args =
  args_id :: pystr
  args_cookies :: bool
  args_json :: bool
  args_file :: bool
  args_command :: "pystr option"
  args_output :: "pystr option"

text \<open>
  Everything \<^verbatim>\<open>main.py\<close> imports and does not define: the logo text of \<^verbatim>\<open>artwork\<close>, the
  Unicode table behind \<^verbatim>\<open>isalnum\<close>, the constructor of \<^verbatim>\<open>Osintgram\<close> and its methods.
  A method returns \<open>None\<close> or a sequence of items (each kept as its \<^verbatim>\<open>str()\<close> text) and
  leaves the object in a new state, however it ends.
\<close>

record 'w env =
  ascii_art :: pystr
  unicode_alnum :: "nat \<Rightarrow> bool"
  Osintgram :: "args \<Rightarrow> 'w osintgram result"
  call_method :: "meth \<Rightarrow> 'w osintgram \<Rightarrow> pystr list option result \<times> 'w osintgram"

text \<open>The state of a running session: what has been observed so far, and the collaborator.\<close>

record 'w session =
  log :: "event list"
  api :: "'w osintgram"

text \<open>How the process stands: still at the prompt, \<^verbatim>\<open>main\<close> returned, the process exited
  with a status, or an exception left \<^verbatim>\<open>main\<close> uncaught.\<close>

datatype status = Running | Returned | Exited int | Uncaught pystr

fun exit_status :: "status \<Rightarrow> int option" where
  "exit_status Running = None"
| "exit_status Returned = Some 0"
| "exit_status (Exited n) = Some n"
| "exit_status (Uncaught e) = Some 1"

section \<open>Output\<close>

text \<open>
  Modelled from the spec: \<^verbatim>\<open>printcolors.printout\<close> is not in \<^verbatim>\<open>main.py\<close>; it renders the
  text in the colour, which the model records as one event.
\<close>

definition printout :: "pystr \<Rightarrow> color option \<Rightarrow> 'w session \<Rightarrow> 'w session" where
  "printout text c s = s\<lparr>log := log s @ [Printout text c]\<rparr>"

definition print :: "pystr \<Rightarrow> 'w session \<Rightarrow> 'w session" where
  "print text s = s\<lparr>log := log s @ [Print text]\<rparr>"

definition print_full_data :: "pystr list option \<Rightarrow> pystr \<Rightarrow> 'w session \<Rightarrow> 'w session" where
  "print_full_data data title s =
     (let s1 = printout (NL @ lit ''[+] '' @ title @ lit '':'' @ NL) (Some GREEN) s in
      case data of
        None \<Rightarrow> printout (lit ''[-] No data found.'' @ NL) (Some RED) s1
      | Some items \<Rightarrow>
          if items = [] then printout (lit ''[-] No data found.'' @ NL) (Some RED) s1
          else fold (\<lambda>item. printout (lit ''  - '' @ item @ NL) (Some CYAN)) items s1)"

text \<open>
  \<^verbatim>\<open>command_list\<close> of the source's function to print the commands, in the order of the dictionary
  literal. The function is \<open>print_commands_fn\<close> here, since its own name is taken in Isabelle.
\<close>

definition command_list :: "(pystr \<times> pystr) list" where
  "command_list =
    [(lit ''FILE=y/n'', lit ''Enable/disable output in '<target username>_<command>.txt'' @ [39]),
     (lit ''JSON=y/n'', lit ''Enable/disable export in '<target username>_<command>.json'' @ [39]),
     (lit ''addrs'', lit ''Get all registered addresses from target's photos''),
     (lit ''cache'', lit ''Clear cache of the tool''),
     (lit ''captions'', lit ''Get target's photo captions''),
     (lit ''commentdata'', lit ''Get a list of all comments on target's posts''),
     (lit ''comments'', lit ''Get total comments on target's posts''),
     (lit ''followers'', lit ''Get target's followers''),
     (lit ''followings'', lit ''Get users followed by target''),
     (lit ''fwersemail'', lit ''Get FULL email addresses of target's followers''),
     (lit ''fwingsemail'', lit ''Get FULL email addresses of users followed by target''),
     (lit ''fwersnumber'', lit ''Get FULL phone numbers of target's followers''),
     (lit ''fwingsnumber'', lit ''Get FULL phone numbers of users followed by target''),
     (lit ''hashtags'', lit ''Get hashtags used by target''),
     (lit ''info'', lit ''Get target info''),
     (lit ''likes'', lit ''Get total likes on target's posts''),
     (lit ''mediatype'', lit ''Get types of target's posts (photo/video)''),
     (lit ''photodes'', lit ''Get descriptions of target's photos''),
     (lit ''photos'', lit ''Download target's photos''),
     (lit ''propic'', lit ''Download target's profile picture''),
     (lit ''stories'', lit ''Download target's stories''),
     (lit ''tagged'', lit ''Get users tagged by target''),
     (lit ''target'', lit ''Set a new target''),
     (lit ''wcommented'', lit ''Get users who commented on target's photos''),
     (lit ''wtagged'', lit ''Get users who tagged the target'')]"

definition print_commands_fn :: "'w session \<Rightarrow> 'w session" where
  "print_commands_fn s =
     fold (\<lambda>(cmd, desc) t. print desc (printout (cmd @ TAB @ TAB) None t)) command_list s"

definition instructions :: "pystr list" where
  "instructions =
    [lit ''Type 'list' to show all allowed commands'',
     lit ''Type 'FILE=y' to save results to files (default is disabled)'',
     lit ''Type 'FILE=n' to disable saving to files'',
     lit ''Type 'JSON=y' to export results as JSON files (default is disabled)'',
     lit ''Type 'JSON=n' to disable exporting to files'']"

definition print_logo :: "'w env \<Rightarrow> 'w session \<Rightarrow> 'w session" where
  "print_logo E s =
     (let s1 = printout (ascii_art E) (Some YELLOW) s;
          s2 = printout (NL @ lit ''Version 1.1 - Developed by Giuseppe Criscione'' @ NL @ NL)
                 (Some YELLOW) s1
      in fold (\<lambda>line. printout (line @ NL) None) instructions s2)"

section \<open>The interrupt handler\<close>

text \<open>
  \<^verbatim>\<open>signal_handler\<close> runs in the main thread at the point the signal is taken there: it
  prints the farewell and \<^verbatim>\<open>sys.exit(0)\<close> raises \<^verbatim>\<open>SystemExit\<close> from that point.
\<close>

definition signal_handler :: "'w session \<Rightarrow> 'a result \<times> 'w session" where
  "signal_handler s = (Exit 0, printout (NL @ lit ''Goodbye!'' @ NL) (Some RED) s)"

section \<open>The registry\<close>

text \<open>The dictionary \<^verbatim>\<open>commands\<close> of \<^verbatim>\<open>main\<close>; its keys are distinct.\<close>

definition commands :: "(pystr \<times> action) list" where
  "commands =
    [(lit ''list'', PrintCommands),
     (lit ''help'', PrintCommands),
     (lit ''quit'', SysExit),
     (lit ''exit'', SysExit),
     (lit ''addrs'', Bound get_addrs),
     (lit ''cache'', Bound clear_cache),
     (lit ''captions'', Bound get_captions),
     (lit ''commentdata'', Bound get_comment_data),
     (lit ''comments'', Bound get_total_comments),
     (lit ''followers'', Bound get_followers),
     (lit ''followings'', Bound get_followings),
     (lit ''fwersemail'', FullData get_fwersemail (lit ''Follower Emails'')),
     (lit ''fwingsemail'', FullData get_fwingsemail (lit ''Following Emails'')),
     (lit ''fwersnumber'', FullData get_fwersnumber (lit ''Follower Phone Numbers'')),
     (lit ''fwingsnumber'', FullData get_fwingsnumber (lit ''Following Phone Numbers'')),
     (lit ''hashtags'', Bound get_hashtags),
     (lit ''info'', Bound get_user_info),
     (lit ''likes'', Bound get_total_likes),
     (lit ''mediatype'', Bound get_media_type),
     (lit ''photodes'', Bound get_photo_description),
     (lit ''photos'', Bound get_user_photo),
     (lit ''propic'', Bound get_user_propic),
     (lit ''stories'', Bound get_user_stories),
     (lit ''tagged'', Bound get_people_tagged_by_user),
     (lit ''target'', Bound change_target),
     (lit ''wcommented'', Bound get_people_who_commented),
     (lit ''wtagged'', Bound get_people_who_tagged)]"

text \<open>
  Running a callable of the registry. \<^verbatim>\<open>sys.exit()\<close> without an argument exits with
  status 0. The value a command returns is dropped by both callers.
\<close>

fun call :: "'w env \<Rightarrow> action \<Rightarrow> 'w session \<Rightarrow> unit result \<times> 'w session" where
  "call E PrintCommands s = (Return (), print_commands_fn s)"
| "call E SysExit s = (Exit 0, s)"
| "call E (Bound m) s =
     (case call_method E m (api s) of
        (Return v, a) \<Rightarrow> (Return (), s\<lparr>api := a\<rparr>)
      | (Raise e, a) \<Rightarrow> (Raise e, s\<lparr>api := a\<rparr>)
      | (Exit n, a) \<Rightarrow> (Exit n, s\<lparr>api := a\<rparr>))"
| "call E (FullData m title) s =
     (case call_method E m (api s) of
        (Return data, a) \<Rightarrow> (Return (), print_full_data data title (s\<lparr>api := a\<rparr>))
      | (Raise e, a) \<Rightarrow> (Raise e, s\<lparr>api := a\<rparr>)
      | (Exit n, a) \<Rightarrow> (Exit n, s\<lparr>api := a\<rparr>))"

text \<open>The call sites \<^verbatim>\<open>commands[cmd]()\<close> and \<^verbatim>\<open>cmd_function()\<close>: the call is recorded, then made.\<close>

definition invoke :: "'w env \<Rightarrow> action \<Rightarrow> 'w session \<Rightarrow> unit result \<times> 'w session" where
  "invoke E f s = call E f (s\<lparr>log := log s @ [Invoke f]\<rparr>)"

text \<open>
  Modelled from the spec: \<^verbatim>\<open>set_write_file\<close> and \<^verbatim>\<open>set_json_dump\<close> are methods of the
  absent \<^verbatim>\<open>Osintgram\<close> class; by the spec they set the write-to-file and the JSON-export
  flag of the collaborator.
\<close>

definition set_write_file :: "bool \<Rightarrow> 'w osintgram \<Rightarrow> 'w osintgram" where
  "set_write_file flag a = a\<lparr>writeFile := flag\<rparr>"

definition set_json_dump :: "bool \<Rightarrow> 'w osintgram \<Rightarrow> 'w osintgram" where
  "set_json_dump flag a = a\<lparr>jsonDump := flag\<rparr>"

section \<open>The interactive loop\<close>

text \<open>
  What \<^verbatim>\<open>input()\<close> meets at one prompt: a line, the end of the input (it raises
  \<^verbatim>\<open>EOFError\<close>), or the interrupt signal while it waits.
\<close>

datatype input = Line pystr | EOF | Interrupt

definition read_input :: "input \<Rightarrow> 'w session \<Rightarrow> pystr result \<times> 'w session" where
  "read_input i s =
     (case i of
        Line l \<Rightarrow> (Return l, s)
      | EOF \<Rightarrow> (Raise (lit ''EOF when reading a line''), s)
      | Interrupt \<Rightarrow> signal_handler s)"

text \<open>The \<^verbatim>\<open>if\<close>/\<open>elif\<close> chain of the loop, on the stripped line.\<close>

definition dispatch :: "'w env \<Rightarrow> pystr \<Rightarrow> 'w session \<Rightarrow> unit result \<times> 'w session" where
  "dispatch E cmd s =
     (if cmd = [] then (Return (), s)
      else case map_of commands cmd of
        Some f \<Rightarrow> invoke E f s
      | None \<Rightarrow>
          if cmd = lit ''FILE=y'' then (Return (), s\<lparr>api := set_write_file True (api s)\<rparr>)
          else if cmd = lit ''FILE=n'' then (Return (), s\<lparr>api := set_write_file False (api s)\<rparr>)
          else if cmd = lit ''JSON=y'' then (Return (), s\<lparr>api := set_json_dump True (api s)\<rparr>)
          else if cmd = lit ''JSON=n'' then (Return (), s\<lparr>api := set_json_dump False (api s)\<rparr>)
          else (Return (), printout (lit ''Unknown command'' @ NL) (Some RED) s))"

text \<open>The body of the \<^verbatim>\<open>try\<close>: prompt, read, strip, dispatch.\<close>

definition try_body :: "'w env \<Rightarrow> input \<Rightarrow> 'w session \<Rightarrow> unit result \<times> 'w session" where
  "try_body E i s =
     (case read_input i (printout (lit ''Run a command: '') (Some YELLOW) s) of
        (Return l, s') \<Rightarrow> dispatch E (strip l) s'
      | (Raise e, s') \<Rightarrow> (Raise e, s')
      | (Exit n, s') \<Rightarrow> (Exit n, s'))"

text \<open>
  \<^verbatim>\<open>except Exception as e\<close>: an ordinary exception is printed and the loop goes on;
  \<^verbatim>\<open>SystemExit\<close> is not an \<^verbatim>\<open>Exception\<close> and leaves the loop and \<^verbatim>\<open>main\<close>.
\<close>

definition except_Exception :: "unit result \<times> 'w session \<Rightarrow> status \<times> 'w session" where
  "except_Exception r =
     (case r of
        (Return u, s) \<Rightarrow> (Running, s)
      | (Raise e, s) \<Rightarrow> (Running, printout (lit ''Error: '' @ e @ NL) (Some RED) s)
      | (Exit n, s) \<Rightarrow> (Exited n, s))"

definition loop_step :: "'w env \<Rightarrow> input \<Rightarrow> 'w session \<Rightarrow> status \<times> 'w session" where
  "loop_step E i s = except_Exception (try_body E i s)"

text \<open>
  \<^verbatim>\<open>while True\<close> over what the prompts meet: the loop stops only when the process has
  exited; when the listed inputs are used up it still stands at the prompt.
\<close>

fun run_loop :: "'w env \<Rightarrow> input list \<Rightarrow> 'w session \<Rightarrow> status \<times> 'w session" where
  "run_loop E [] s = (Running, s)"
| "run_loop E (i # rest) s =
     (let r = loop_step E i s in
      if fst r = Running then run_loop E rest (snd r) else r)"

section \<open>main\<close>

text \<open>Outside the \<^verbatim>\<open>try\<close> nothing is caught: the command's outcome is the outcome of \<^verbatim>\<open>main\<close>.\<close>

definition propagate :: "unit result \<times> 'w session \<Rightarrow> status \<times> 'w session" where
  "propagate r =
     (case r of
        (Return u, s) \<Rightarrow> (Returned, s)
      | (Raise e, s) \<Rightarrow> (Uncaught e, s)
      | (Exit n, s) \<Rightarrow> (Exited n, s))"

text \<open>\<^verbatim>\<open>if args.command:\<close> with its body, up to the \<^verbatim>\<open>return\<close>.\<close>

definition single_command :: "'w env \<Rightarrow> pystr \<Rightarrow> 'w session \<Rightarrow> status \<times> 'w session" where
  "single_command E cmd s =
     (case map_of commands cmd of
        Some cmd_function \<Rightarrow> propagate (invoke E cmd_function s)
      | None \<Rightarrow> (Returned, printout (lit ''Unknown command: '' @ cmd @ NL) (Some RED) s))"

text \<open>
  \<^verbatim>\<open>main\<close> from \<^verbatim>\<open># Initialize API\<close> on. The result is the status, what was observed, and
  the collaborator if it was constructed. \<^verbatim>\<open>args.command\<close> is \<open>None\<close> when the option is
  not given, and the test \<^verbatim>\<open>if args.command\<close> is also false for the empty string.
\<close>

definition start_session ::
  "'w env \<Rightarrow> args \<Rightarrow> input list \<Rightarrow> status \<times> event list \<times> 'w osintgram option" where
  "start_session E a inputs =
     (case Osintgram E a of
        Raise e \<Rightarrow> (Uncaught e, [], None)
      | Exit n \<Rightarrow> (Exited n, [], None)
      | Return api0 \<Rightarrow>
          (let s0 = \<lparr>log = [], api = api0\<rparr>;
               r = (case args_command a of
                      None \<Rightarrow> run_loop E inputs (print_logo E s0)
                    | Some cmd \<Rightarrow>
                        if cmd \<noteq> [] then single_command E cmd s0
                        else run_loop E inputs (print_logo E s0))
           in (fst r, log (snd r), Some (api (snd r)))))"

text \<open>\<^verbatim>\<open>main\<close> after \<^verbatim>\<open>parse_args\<close>: the check of the username, then the rest.\<close>

definition main ::
  "'w env \<Rightarrow> args \<Rightarrow> input list \<Rightarrow> status \<times> event list \<times> 'w osintgram option" where
  "main E a inputs =
     (if \<not> isalnum (unicode_alnum E) (args_id a) then
        (Exited 1,
         [Printout (lit ''Invalid Instagram username. It should be alphanumeric.'' @ NL) (Some RED)],
         None)
      else start_session E a inputs)"

section \<open>Observing a run\<close>

text \<open>The registry callables that were called, in order.\<close>

fun invoked :: "event \<Rightarrow> action list" where
  "invoked (Invoke f) = [f]"
| "invoked (Printout t c) = []"
| "invoked (Print t) = []"

definition invocations :: "event list \<Rightarrow> action list" where
  "invocations evs = concat (map invoked evs)"

text \<open>
  A small collaborator on which the model can be run: its hidden state counts the calls
  that went through, \<^verbatim>\<open>get_fwersemail\<close> returns two addresses, \<^verbatim>\<open>get_fwingsemail\<close> none,
  \<^verbatim>\<open>get_captions\<close> raises, \<^verbatim>\<open>clear_cache\<close> exits with status 3, and U+00E9 counts as a
  letter.
\<close>

definition sample_method ::
  "meth \<Rightarrow> nat osintgram \<Rightarrow> pystr list option result \<times> nat osintgram" where
  "sample_method m a =
     (if m = get_fwersemail then
        (Return (Some [lit ''ann@example.org'', lit ''bob@example.org'']), a\<lparr>hidden := Suc (hidden a)\<rparr>)
      else if m = get_fwingsemail then (Return (Some []), a\<lparr>hidden := Suc (hidden a)\<rparr>)
      else if m = get_captions then (Raise (lit ''no posts''), a)
      else if m = clear_cache then (Exit 3, a)
      else (Return None, a\<lparr>hidden := Suc (hidden a)\<rparr>))"

definition sample_env :: "nat env" where
  "sample_env =
     \<lparr>ascii_art = lit ''Osintgram'',
      unicode_alnum = (\<lambda>c. c = 233),
      Osintgram = (\<lambda>a. Return \<lparr>writeFile = args_file a, jsonDump = args_json a, hidden = 0\<rparr>),
      call_method = sample_method\<rparr>"

definition sample_args :: "pystr \<Rightarrow> pystr option \<Rightarrow> args" where
  "sample_args name cmd =
     \<lparr>args_id = name, args_cookies = False, args_json = False, args_file = False,
      args_command = cmd, args_output = None\<rparr>"

definition sample_session :: "nat session" where
  "sample_session = \<lparr>log = [], api = \<lparr>writeFile = False, jsonDump = False, hidden = 0\<rparr>\<rparr>"

section \<open>Basic facts\<close>

lemma lit_eq_iff [simp]: "lit a = lit b \<longleftrightarrow> a = b"
  by (simp add: lit_def inj_map_eq_map inj_of_char)

lemma lit_eq_Nil [simp]: "lit a = [] \<longleftrightarrow> a = []"
  by (simp add: lit_def)

lemma log_printout [simp]: "log (printout t c s) = log s @ [Printout t c]"
  by (simp add: printout_def)

lemma api_printout [simp]: "api (printout t c s) = api s"
  by (simp add: printout_def)

lemma log_print [simp]: "log (print t s) = log s @ [Print t]"
  by (simp add: print_def)

lemma api_print [simp]: "api (print t s) = api s"
  by (simp add: print_def)

lemma log_fold_printout:
  "log (fold (\<lambda>x. printout (f x) c) xs s) = log s @ map (\<lambda>x. Printout (f x) c) xs"
  by (induction xs arbitrary: s) simp_all

lemma api_fold_printout:
  "api (fold (\<lambda>x. printout (f x) c) xs s) = api s"
  by (induction xs arbitrary: s) simp_all

lemma invocations_Nil [simp]: "invocations [] = []"
  by (simp add: invocations_def)

lemma invocations_append [simp]: "invocations (xs @ ys) = invocations xs @ invocations ys"
  by (simp add: invocations_def)

lemma invocations_Cons [simp]: "invocations (x # xs) = invoked x @ invocations xs"
  by (simp add: invocations_def)

lemma invocations_printouts [simp]: "invocations (map (\<lambda>x. Printout (f x) c) xs) = []"
  by (induction xs) simp_all

lemma api_print_full_data [simp]: "api (print_full_data d t s) = api s"
  by (simp add: print_full_data_def Let_def api_fold_printout split: option.split)

lemma invocations_print_full_data [simp]:
  "invocations (log (print_full_data d t s)) = invocations (log s)"
  by (simp add: print_full_data_def Let_def log_fold_printout split: option.split)

lemma print_commands_fn_fold:
  "api (fold (\<lambda>(cmd, desc) t. print desc (printout (cmd @ TAB @ TAB) None t)) xs s) = api s
   \<and> invocations (log (fold (\<lambda>(cmd, desc) t. print desc (printout (cmd @ TAB @ TAB) None t)) xs s))
       = invocations (log s)"
  by (induction xs arbitrary: s) (simp_all add: case_prod_beta)

lemma api_print_commands_fn [simp]: "api (print_commands_fn s) = api s"
  unfolding print_commands_fn_def using print_commands_fn_fold by blast

lemma invocations_print_commands_fn [simp]:
  "invocations (log (print_commands_fn s)) = invocations (log s)"
  unfolding print_commands_fn_def using print_commands_fn_fold by blast

lemma invocations_call [simp]:
  "invocations (log (snd (call E f s))) = invocations (log s)"
  by (cases f) (simp_all split: prod.split result.split)

lemma invocations_invoke [simp]:
  "invocations (log (snd (invoke E f s))) = invocations (log s) @ [f]"
  by (simp add: invoke_def)

lemma strip_decomp:
  "\<exists>pre post. l = pre @ strip l @ post \<and> list_all isspace pre \<and> list_all isspace post"
proof -
  let ?a = "takeWhile isspace l"
  let ?m = "dropWhile isspace l"
  let ?b = "rev (takeWhile isspace (rev ?m))"
  have "rev (takeWhile isspace (rev ?m) @ dropWhile isspace (rev ?m)) = rev (rev ?m)"
    by (simp only: takeWhile_dropWhile_id)
  then have m: "?m = strip l @ ?b"
    by (simp only: rev_append rev_rev_ident strip_def)
  have "l = ?a @ ?m" by simp
  with m have "l = ?a @ strip l @ ?b" by simp
  moreover have "list_all isspace ?a"
    by (simp add: list_all_iff) (meson set_takeWhileD)
  moreover have "list_all isspace ?b"
    by (simp add: list_all_iff) (meson set_takeWhileD)
  ultimately show ?thesis by blast
qed

lemma strip_ends:
  assumes "strip l \<noteq> []"
  shows "\<not> isspace (hd (strip l)) \<and> \<not> isspace (last (strip l))"
proof -
  let ?m = "dropWhile isspace l"
  let ?r = "dropWhile isspace (rev ?m)"
  from assms have r: "?r \<noteq> []" by (simp add: strip_def)
  then have "\<not> isspace (hd ?r)" by (rule hd_dropWhile)
  with r have last: "\<not> isspace (last (strip l))" by (simp add: strip_def last_rev)
  have "?m = [] \<Longrightarrow> ?r = []" by (simp only: rev.simps dropWhile.simps)
  with r have m: "?m \<noteq> []" by blast
  then have hm: "\<not> isspace (hd ?m)" by (rule hd_dropWhile)
  from m have "last (rev ?m) = hd ?m" by (simp add: last_rev)
  with hm have "\<not> isspace (last (rev ?m))" by simp
  have "rev (takeWhile isspace (rev ?m) @ ?r) = rev (rev ?m)"
    by (simp only: takeWhile_dropWhile_id)
  then have "?m = rev ?r @ rev (takeWhile isspace (rev ?m))"
    by (simp only: rev_append rev_rev_ident)
  with r have "hd ?m = hd (rev ?r)" by (metis hd_append2 rev_is_Nil_conv)
  with hm have "\<not> isspace (hd (strip l))" by (simp add: strip_def)
  with last show ?thesis by simp
qed

lemma commands_toggles:
  "map_of commands (lit ''FILE=y'') = None" "map_of commands (lit ''FILE=n'') = None"
  "map_of commands (lit ''JSON=y'') = None" "map_of commands (lit ''JSON=n'') = None"
  by (simp_all add: commands_def)

lemma commands_quit_exit:
  "map_of commands (lit ''quit'') = Some SysExit" "map_of commands (lit ''exit'') = Some SysExit"
  by (simp_all add: commands_def)

section \<open>The output formatter\<close>

text \<open>
  C6: \<^verbatim>\<open>print_full_data\<close> prints the titled header first. On an empty sequence the only
  other line is the notice that no data was found, so no bullet line is printed. On a
  sequence of N items the header is followed by exactly N bullet lines, one for each
  item, in the order of the sequence, and by nothing else.
\<close>

theorem print_full_data_output:
  "log (print_full_data (Some []) title s) =
     log s @ [Printout (NL @ lit ''[+] '' @ title @ lit '':'' @ NL) (Some GREEN),
              Printout (lit ''[-] No data found.'' @ NL) (Some RED)]
   \<and> log (print_full_data (Some (x # xs)) title s) =
     log s @ Printout (NL @ lit ''[+] '' @ title @ lit '':'' @ NL) (Some GREEN)
           # map (\<lambda>item. Printout (lit ''  - '' @ item @ NL) (Some CYAN)) (x # xs)
   \<and> length (log (print_full_data (Some (x # xs)) title s)) = length (log s) + 1 + length (x # xs)"
  by (simp add: print_full_data_def Let_def log_fold_printout del: fold_simps)

section \<open>The interactive loop, one line at a time\<close>

lemma Nil_eq_lit [simp]: "[] = lit a \<longleftrightarrow> a = []"
  by (simp add: lit_def)

lemma commands_Nil: "map_of commands [] = None"
  by (simp add: commands_def)

lemma try_body_Line:
  "try_body E (Line l) s = dispatch E (strip l) (printout (lit ''Run a command: '') (Some YELLOW) s)"
  by (simp add: try_body_def read_input_def)

lemma try_body_EOF:
  "try_body E EOF s =
     (Raise (lit ''EOF when reading a line''), printout (lit ''Run a command: '') (Some YELLOW) s)"
  by (simp add: try_body_def read_input_def)

lemma try_body_Interrupt:
  "try_body E Interrupt s =
     (Exit 0, printout (NL @ lit ''Goodbye!'' @ NL) (Some RED)
                (printout (lit ''Run a command: '') (Some YELLOW) s))"
  by (simp add: try_body_def read_input_def signal_handler_def)

lemma dispatch_registered:
  "map_of commands cmd = Some f \<Longrightarrow> dispatch E cmd s = invoke E f s"
  by (auto simp: dispatch_def commands_Nil)

lemma dispatch_empty: "dispatch E [] s = (Return (), s)"
  by (simp add: dispatch_def)

lemma dispatch_unknown:
  "cmd \<noteq> [] \<Longrightarrow> map_of commands cmd = None \<Longrightarrow> cmd \<noteq> lit ''FILE=y'' \<Longrightarrow> cmd \<noteq> lit ''FILE=n'' \<Longrightarrow>
   cmd \<noteq> lit ''JSON=y'' \<Longrightarrow> cmd \<noteq> lit ''JSON=n'' \<Longrightarrow>
   dispatch E cmd s = (Return (), printout (lit ''Unknown command'' @ NL) (Some RED) s)"
  by (simp add: dispatch_def)

lemma dispatch_toggles:
  "dispatch E (lit ''FILE=y'') s = (Return (), s\<lparr>api := (api s)\<lparr>writeFile := True\<rparr>\<rparr>)"
  "dispatch E (lit ''FILE=n'') s = (Return (), s\<lparr>api := (api s)\<lparr>writeFile := False\<rparr>\<rparr>)"
  "dispatch E (lit ''JSON=y'') s = (Return (), s\<lparr>api := (api s)\<lparr>jsonDump := True\<rparr>\<rparr>)"
  "dispatch E (lit ''JSON=n'') s = (Return (), s\<lparr>api := (api s)\<lparr>jsonDump := False\<rparr>\<rparr>)"
  by (simp_all add: dispatch_def commands_toggles set_write_file_def set_json_dump_def)

lemma invocations_dispatch:
  "invocations (log (snd (dispatch E cmd s))) =
     invocations (log s) @ (case map_of commands cmd of Some f \<Rightarrow> [f] | None \<Rightarrow> [])"
  by (simp add: dispatch_def commands_Nil split: option.split)

lemma invocations_except_Exception:
  "invocations (log (snd (except_Exception r))) = invocations (log (snd r))"
  by (simp add: except_Exception_def split: prod.split result.split)


lemma invocations_loop_step_Line:
  "invocations (log (snd (loop_step E (Line l) s))) =
     invocations (log s) @ (case map_of commands (strip l) of Some f \<Rightarrow> [f] | None \<Rightarrow> [])"
  by (simp add: loop_step_def try_body_Line invocations_except_Exception invocations_dispatch)

lemma session_updates:
  "s\<lparr>log := evs, api := a\<rparr> = \<lparr>log = evs, api = a\<rparr>"
  by (cases s) simp

lemma invoke_Bound:
  "invoke E (Bound m) s =
     (case call_method E m (api s) of
        (Return v, a) \<Rightarrow> (Return (), \<lparr>log = log s @ [Invoke (Bound m)], api = a\<rparr>)
      | (Raise e, a) \<Rightarrow> (Raise e, \<lparr>log = log s @ [Invoke (Bound m)], api = a\<rparr>)
      | (Exit n, a) \<Rightarrow> (Exit n, \<lparr>log = log s @ [Invoke (Bound m)], api = a\<rparr>))"
  by (simp add: invoke_def session_updates split: prod.split result.split)

lemma invoke_FullData:
  "invoke E (FullData m title) s =
     (case call_method E m (api s) of
        (Return data, a) \<Rightarrow>
          (Return (),
           print_full_data data title \<lparr>log = log s @ [Invoke (FullData m title)], api = a\<rparr>)
      | (Raise e, a) \<Rightarrow> (Raise e, \<lparr>log = log s @ [Invoke (FullData m title)], api = a\<rparr>)
      | (Exit n, a) \<Rightarrow> (Exit n, \<lparr>log = log s @ [Invoke (FullData m title)], api = a\<rparr>))"
  by (simp add: invoke_def session_updates split: prod.split result.split)

lemma invoke_SysExit:
  "invoke E SysExit s = (Exit 0, \<lparr>log = log s @ [Invoke SysExit], api = api s\<rparr>)"
  by (simp add: invoke_def)

lemma log_print_commands_fold:
  "log (fold (\<lambda>(cmd, desc) t. print desc (printout (cmd @ TAB @ TAB) None t)) xs s) =
     log s @ concat (map (\<lambda>(cmd, desc). [Printout (cmd @ TAB @ TAB) None, Print desc]) xs)"
  by (induction xs arbitrary: s) (simp_all add: case_prod_beta)

lemma print_commands_fn_eq:
  "print_commands_fn s =
     \<lparr>log = log s @
        concat (map (\<lambda>(cmd, desc). [Printout (cmd @ TAB @ TAB) None, Print desc]) command_list),
      api = api s\<rparr>"
proof -
  have "log (print_commands_fn s) = log s @
        concat (map (\<lambda>(cmd, desc). [Printout (cmd @ TAB @ TAB) None, Print desc]) command_list)"
    unfolding print_commands_fn_def by (rule log_print_commands_fold)
  moreover have "api (print_commands_fn s) = api s" by simp
  ultimately show ?thesis
    by (cases "print_commands_fn s") simp
qed

lemma invoke_PrintCommands:
  "invoke E PrintCommands s =
     (Return (),
      \<lparr>log = log s @ Invoke PrintCommands #
         concat (map (\<lambda>(cmd, desc). [Printout (cmd @ TAB @ TAB) None, Print desc]) command_list),
       api = api s\<rparr>)"
  by (simp add: invoke_def print_commands_fn_eq)

lemma loop_step_registered:
  "map_of commands (strip l) = Some f \<Longrightarrow>
   loop_step E (Line l) s =
     except_Exception (invoke E f (printout (lit ''Run a command: '') (Some YELLOW) s))"
  by (simp add: loop_step_def try_body_Line dispatch_registered)

lemma loop_step_Bound:
  assumes "map_of commands (strip l) = Some (Bound m)"
  shows "loop_step E (Line l) s =
     (case call_method E m (api s) of
        (Return v, a) \<Rightarrow>
          (Running,
           \<lparr>log = log s @ [Printout (lit ''Run a command: '') (Some YELLOW), Invoke (Bound m)],
            api = a\<rparr>)
      | (Raise e, a) \<Rightarrow>
          (Running,
           \<lparr>log = log s @ [Printout (lit ''Run a command: '') (Some YELLOW), Invoke (Bound m),
                           Printout (lit ''Error: '' @ e @ NL) (Some RED)],
            api = a\<rparr>)
      | (Exit n, a) \<Rightarrow>
          (Exited n,
           \<lparr>log = log s @ [Printout (lit ''Run a command: '') (Some YELLOW), Invoke (Bound m)],
            api = a\<rparr>))"
  by (simp add: loop_step_registered [OF assms] invoke_Bound except_Exception_def printout_def
      split: prod.split result.split)

lemma loop_step_FullData:
  assumes "map_of commands (strip l) = Some (FullData m title)"
  shows "loop_step E (Line l) s =
     (case call_method E m (api s) of
        (Return data, a) \<Rightarrow>
          (Running,
           print_full_data data title
             \<lparr>log = log s @ [Printout (lit ''Run a command: '') (Some YELLOW),
                             Invoke (FullData m title)],
              api = a\<rparr>)
      | (Raise e, a) \<Rightarrow>
          (Running,
           \<lparr>log = log s @ [Printout (lit ''Run a command: '') (Some YELLOW),
                           Invoke (FullData m title),
                           Printout (lit ''Error: '' @ e @ NL) (Some RED)],
            api = a\<rparr>)
      | (Exit n, a) \<Rightarrow>
          (Exited n,
           \<lparr>log = log s @ [Printout (lit ''Run a command: '') (Some YELLOW),
                           Invoke (FullData m title)],
            api = a\<rparr>))"
  by (simp add: loop_step_registered [OF assms] invoke_FullData except_Exception_def printout_def
      split: prod.split result.split)

lemma loop_step_PrintCommands:
  assumes "map_of commands (strip l) = Some PrintCommands"
  shows "loop_step E (Line l) s =
     (Running,
      \<lparr>log = log s @ Printout (lit ''Run a command: '') (Some YELLOW) # Invoke PrintCommands #
         concat (map (\<lambda>(cmd, desc). [Printout (cmd @ TAB @ TAB) None, Print desc]) command_list),
       api = api s\<rparr>)"
  by (simp add: loop_step_registered [OF assms] invoke_PrintCommands except_Exception_def)

lemma loop_step_SysExit:
  assumes "map_of commands (strip l) = Some SysExit"
  shows "loop_step E (Line l) s =
     (Exited 0,
      \<lparr>log = log s @ [Printout (lit ''Run a command: '') (Some YELLOW), Invoke SysExit],
       api = api s\<rparr>)"
  by (simp add: loop_step_registered [OF assms] invoke_SysExit except_Exception_def)

text \<open>
  C1: a line read by the loop is stripped of the whitespace around it before anything
  else is decided: the line is a run of whitespace, the stripped text and a run of
  whitespace, and the stripped text neither starts nor ends with whitespace. When the
  stripped text is empty the step does nothing but print the prompt and the loop stays
  at the prompt. When the stripped text is a key of the registry the step is one call of
  the callable stored under that key: a bound method runs once on the collaborator, a
  full-data command runs its method once and prints what it returned, the command list
  is printed once, \<^verbatim>\<open>sys.exit\<close> exits; and that call is the only one recorded. For every
  line the step records at most that one call.
\<close>

theorem loop_step_line:
  "loop_step E (Line l) s =
     except_Exception (dispatch E (strip l) (printout (lit ''Run a command: '') (Some YELLOW) s))
   \<and> (\<exists>pre post. l = pre @ strip l @ post \<and> list_all isspace pre \<and> list_all isspace post)
   \<and> (strip l \<noteq> [] \<longrightarrow> \<not> isspace (hd (strip l)) \<and> \<not> isspace (last (strip l)))
   \<and> (strip l0 = [] \<longrightarrow>
        loop_step E (Line l0) s = (Running, printout (lit ''Run a command: '') (Some YELLOW) s))
   \<and> (map_of commands (strip l1) = Some f \<longrightarrow>
        loop_step E (Line l1) s =
          except_Exception (invoke E f (printout (lit ''Run a command: '') (Some YELLOW) s))
        \<and> invocations (log (snd (loop_step E (Line l1) s))) = invocations (log s) @ [f])
   \<and> (map_of commands (strip l2) = Some (Bound m) \<longrightarrow>
        loop_step E (Line l2) s =
          (case call_method E m (api s) of
             (Return v, a) \<Rightarrow>
               (Running,
                \<lparr>log = log s @ [Printout (lit ''Run a command: '') (Some YELLOW), Invoke (Bound m)],
                 api = a\<rparr>)
           | (Raise e, a) \<Rightarrow>
               (Running,
                \<lparr>log = log s @ [Printout (lit ''Run a command: '') (Some YELLOW), Invoke (Bound m),
                                Printout (lit ''Error: '' @ e @ NL) (Some RED)],
                 api = a\<rparr>)
           | (Exit n, a) \<Rightarrow>
               (Exited n,
                \<lparr>log = log s @ [Printout (lit ''Run a command: '') (Some YELLOW), Invoke (Bound m)],
                 api = a\<rparr>)))
   \<and> (map_of commands (strip l3) = Some (FullData mf title) \<longrightarrow>
        loop_step E (Line l3) s =
          (case call_method E mf (api s) of
             (Return data, a) \<Rightarrow>
               (Running,
                print_full_data data title
                  \<lparr>log = log s @ [Printout (lit ''Run a command: '') (Some YELLOW),
                                  Invoke (FullData mf title)],
                   api = a\<rparr>)
           | (Raise e, a) \<Rightarrow>
               (Running,
                \<lparr>log = log s @ [Printout (lit ''Run a command: '') (Some YELLOW),
                                Invoke (FullData mf title),
                                Printout (lit ''Error: '' @ e @ NL) (Some RED)],
                 api = a\<rparr>)
           | (Exit n, a) \<Rightarrow>
               (Exited n,
                \<lparr>log = log s @ [Printout (lit ''Run a command: '') (Some YELLOW),
                                Invoke (FullData mf title)],
                 api = a\<rparr>)))
   \<and> (map_of commands (strip l4) = Some PrintCommands \<longrightarrow>
        loop_step E (Line l4) s =
          (Running,
           \<lparr>log = log s @ Printout (lit ''Run a command: '') (Some YELLOW) # Invoke PrintCommands #
              concat (map (\<lambda>(cmd, desc). [Printout (cmd @ TAB @ TAB) None, Print desc])
                        command_list),
            api = api s\<rparr>))
   \<and> (map_of commands (strip l5) = Some SysExit \<longrightarrow>
        loop_step E (Line l5) s =
          (Exited 0,
           \<lparr>log = log s @ [Printout (lit ''Run a command: '') (Some YELLOW), Invoke SysExit],
            api = api s\<rparr>))
   \<and> invocations (log (snd (loop_step E (Line l) s))) =
        invocations (log s) @ (case map_of commands (strip l) of Some g \<Rightarrow> [g] | None \<Rightarrow> [])"
proof -
  have a: "loop_step E (Line l) s =
     except_Exception (dispatch E (strip l) (printout (lit ''Run a command: '') (Some YELLOW) s))"
    by (simp add: loop_step_def try_body_Line)
  have c: "strip l0 = [] \<longrightarrow>
        loop_step E (Line l0) s = (Running, printout (lit ''Run a command: '') (Some YELLOW) s)"
    by (simp add: loop_step_def try_body_Line dispatch_empty except_Exception_def)
  have d: "map_of commands (strip l1) = Some f \<longrightarrow>
        loop_step E (Line l1) s =
          except_Exception (invoke E f (printout (lit ''Run a command: '') (Some YELLOW) s))
        \<and> invocations (log (snd (loop_step E (Line l1) s))) = invocations (log s) @ [f]"
    by (simp add: loop_step_def try_body_Line dispatch_registered invocations_except_Exception)
  note e = strip_ends [of l] strip_decomp [of l] invocations_loop_step_Line [of E l s]
  note k = loop_step_Bound [of l2 m E s] loop_step_FullData [of l3 mf title E s]
    loop_step_PrintCommands [of l4 E s] loop_step_SysExit [of l5 E s]
  show ?thesis
    by (intro conjI impI a c [rule_format] d [rule_format] e k) (simp_all add: d)
qed

theorem loop_step_line_witness:
  "strip (lit ''   '') = []
   \<and> loop_step sample_env (Line (lit ''   '')) sample_session =
       (Running, \<lparr>log = [Printout (lit ''Run a command: '') (Some YELLOW)],
                  api = \<lparr>writeFile = False, jsonDump = False, hidden = 0\<rparr>\<rparr>)
   \<and> strip (lit '' info  '') = lit ''info''
   \<and> \<not> isspace (hd (strip (lit '' info  ''))) \<and> \<not> isspace (last (strip (lit '' info  '')))
   \<and> map_of commands (strip (lit '' info  '')) = Some (Bound get_user_info)
   \<and> invocations (log (snd (loop_step sample_env (Line (lit '' info  '')) sample_session))) =
       [Bound get_user_info]
   \<and> loop_step sample_env (Line (lit '' info  '')) sample_session =
       (Running,
        \<lparr>log = [Printout (lit ''Run a command: '') (Some YELLOW), Invoke (Bound get_user_info)],
         api = \<lparr>writeFile = False, jsonDump = False, hidden = 1\<rparr>\<rparr>)
   \<and> map_of commands (strip (lit ''fwersemail'')) =
       Some (FullData get_fwersemail (lit ''Follower Emails''))
   \<and> loop_step sample_env (Line (lit ''fwersemail'')) sample_session =
       (Running,
        \<lparr>log = [Printout (lit ''Run a command: '') (Some YELLOW),
                Invoke (FullData get_fwersemail (lit ''Follower Emails'')),
                Printout (NL @ lit ''[+] Follower Emails:'' @ NL) (Some GREEN),
                Printout (lit ''  - ann@example.org'' @ NL) (Some CYAN),
                Printout (lit ''  - bob@example.org'' @ NL) (Some CYAN)],
         api = \<lparr>writeFile = False, jsonDump = False, hidden = 1\<rparr>\<rparr>)
   \<and> map_of commands (strip (lit ''help'')) = Some PrintCommands
   \<and> fst (loop_step sample_env (Line (lit ''help'')) sample_session) = Running
   \<and> take 4 (log (snd (loop_step sample_env (Line (lit ''help'')) sample_session))) =
       [Printout (lit ''Run a command: '') (Some YELLOW), Invoke PrintCommands,
        Printout (lit ''FILE=y/n'' @ TAB @ TAB) None,
        Print (lit ''Enable/disable output in '<target username>_<command>.txt'' @ [39])]
   \<and> length (log (snd (loop_step sample_env (Line (lit ''help'')) sample_session))) = 52
   \<and> map_of commands (strip (lit ''exit'')) = Some SysExit
   \<and> loop_step sample_env (Line (lit ''exit'')) sample_session =
       (Exited 0,
        \<lparr>log = [Printout (lit ''Run a command: '') (Some YELLOW), Invoke SysExit],
         api = \<lparr>writeFile = False, jsonDump = False, hidden = 0\<rparr>\<rparr>)"
proof -
  have h0: "strip (lit ''   '') = []"
    by (simp add: strip_def lit_def isspace_def)
  have si: "strip (lit '' info  '') = lit ''info''"
    by (simp add: strip_def lit_def isspace_def)
  have ne: "strip (lit '' info  '') \<noteq> []"
    by (simp add: si)
  have h1: "map_of commands (strip (lit '' info  '')) = Some (Bound get_user_info)"
    by (simp add: si commands_def)
  have sf: "strip (lit ''fwersemail'') = lit ''fwersemail''"
    by (simp add: strip_def lit_def isspace_def)
  have h3: "map_of commands (strip (lit ''fwersemail'')) =
      Some (FullData get_fwersemail (lit ''Follower Emails''))"
    by (simp add: sf commands_def)
  have sh: "strip (lit ''help'') = lit ''help''"
    by (simp add: strip_def lit_def isspace_def)
  have h4: "map_of commands (strip (lit ''help'')) = Some PrintCommands"
    by (simp add: sh commands_def)
  have se: "strip (lit ''exit'') = lit ''exit''"
    by (simp add: strip_def lit_def isspace_def)
  have h5: "map_of commands (strip (lit ''exit'')) = Some SysExit"
    by (simp add: se commands_def)
  note t = loop_step_line [where E = sample_env and s = sample_session
      and l = "lit '' info  ''" and ?l0.0 = "lit ''   ''" and ?l1.0 = "lit '' info  ''"
      and f = "Bound get_user_info" and ?l2.0 = "lit '' info  ''" and m = get_user_info
      and ?l3.0 = "lit ''fwersemail''" and mf = get_fwersemail and title = "lit ''Follower Emails''"
      and ?l4.0 = "lit ''help''" and ?l5.0 = "lit ''exit''"]
  from t ne have c3: "\<not> isspace (hd (strip (lit '' info  '')))
      \<and> \<not> isspace (last (strip (lit '' info  '')))"
    by blast
  from t h0 have c0: "loop_step sample_env (Line (lit ''   '')) sample_session =
      (Running, printout (lit ''Run a command: '') (Some YELLOW) sample_session)"
    by blast
  from t h1 have c1:
    "invocations (log (snd (loop_step sample_env (Line (lit '' info  '')) sample_session))) =
       invocations (log sample_session) @ [Bound get_user_info]"
    by blast
  from t h1 have c2: "loop_step sample_env (Line (lit '' info  '')) sample_session =
      (case call_method sample_env get_user_info (api sample_session) of
         (Return v, a) \<Rightarrow>
           (Running,
            \<lparr>log = log sample_session @ [Printout (lit ''Run a command: '') (Some YELLOW),
                  Invoke (Bound get_user_info)],
             api = a\<rparr>)
       | (Raise e, a) \<Rightarrow>
           (Running,
            \<lparr>log = log sample_session @ [Printout (lit ''Run a command: '') (Some YELLOW),
                  Invoke (Bound get_user_info), Printout (lit ''Error: '' @ e @ NL) (Some RED)],
             api = a\<rparr>)
       | (Exit n, a) \<Rightarrow>
           (Exited n,
            \<lparr>log = log sample_session @ [Printout (lit ''Run a command: '') (Some YELLOW),
                  Invoke (Bound get_user_info)],
             api = a\<rparr>))"
    by blast
  from t h3 have c4: "loop_step sample_env (Line (lit ''fwersemail'')) sample_session =
      (case call_method sample_env get_fwersemail (api sample_session) of
         (Return data, a) \<Rightarrow>
           (Running,
            print_full_data data (lit ''Follower Emails'')
              \<lparr>log = log sample_session @ [Printout (lit ''Run a command: '') (Some YELLOW),
                    Invoke (FullData get_fwersemail (lit ''Follower Emails''))],
               api = a\<rparr>)
       | (Raise e, a) \<Rightarrow>
           (Running,
            \<lparr>log = log sample_session @ [Printout (lit ''Run a command: '') (Some YELLOW),
                  Invoke (FullData get_fwersemail (lit ''Follower Emails'')),
                  Printout (lit ''Error: '' @ e @ NL) (Some RED)],
             api = a\<rparr>)
       | (Exit n, a) \<Rightarrow>
           (Exited n,
            \<lparr>log = log sample_session @ [Printout (lit ''Run a command: '') (Some YELLOW),
                  Invoke (FullData get_fwersemail (lit ''Follower Emails''))],
             api = a\<rparr>))"
    by blast
  from t h4 have c5: "loop_step sample_env (Line (lit ''help'')) sample_session =
      (Running,
       \<lparr>log = log sample_session @ Printout (lit ''Run a command: '') (Some YELLOW) #
          Invoke PrintCommands #
          concat (map (\<lambda>(cmd, desc). [Printout (cmd @ TAB @ TAB) None, Print desc]) command_list),
        api = api sample_session\<rparr>)"
    by blast
  from t h5 have c6: "loop_step sample_env (Line (lit ''exit'')) sample_session =
      (Exited 0,
       \<lparr>log = log sample_session @ [Printout (lit ''Run a command: '') (Some YELLOW),
             Invoke SysExit],
        api = api sample_session\<rparr>)"
    by blast
  have d0: "loop_step sample_env (Line (lit ''   '')) sample_session =
       (Running, \<lparr>log = [Printout (lit ''Run a command: '') (Some YELLOW)],
                  api = \<lparr>writeFile = False, jsonDump = False, hidden = 0\<rparr>\<rparr>)"
    using c0 by (simp add: sample_session_def printout_def)
  have d1: "invocations (log (snd (loop_step sample_env (Line (lit '' info  '')) sample_session))) =
       [Bound get_user_info]"
    using c1 by (simp add: sample_session_def)
  have d2: "loop_step sample_env (Line (lit '' info  '')) sample_session =
       (Running,
        \<lparr>log = [Printout (lit ''Run a command: '') (Some YELLOW), Invoke (Bound get_user_info)],
         api = \<lparr>writeFile = False, jsonDump = False, hidden = 1\<rparr>\<rparr>)"
    using c2 by (simp add: sample_session_def sample_env_def sample_method_def)
  have d4: "loop_step sample_env (Line (lit ''fwersemail'')) sample_session =
       (Running,
        \<lparr>log = [Printout (lit ''Run a command: '') (Some YELLOW),
                Invoke (FullData get_fwersemail (lit ''Follower Emails'')),
                Printout (NL @ lit ''[+] Follower Emails:'' @ NL) (Some GREEN),
                Printout (lit ''  - ann@example.org'' @ NL) (Some CYAN),
                Printout (lit ''  - bob@example.org'' @ NL) (Some CYAN)],
         api = \<lparr>writeFile = False, jsonDump = False, hidden = 1\<rparr>\<rparr>)"
    using c4
    by (simp add: sample_session_def sample_env_def sample_method_def print_full_data_def
        printout_def lit_def)
  have d5: "fst (loop_step sample_env (Line (lit ''help'')) sample_session) = Running
     \<and> take 4 (log (snd (loop_step sample_env (Line (lit ''help'')) sample_session))) =
       [Printout (lit ''Run a command: '') (Some YELLOW), Invoke PrintCommands,
        Printout (lit ''FILE=y/n'' @ TAB @ TAB) None,
        Print (lit ''Enable/disable output in '<target username>_<command>.txt'' @ [39])]
     \<and> length (log (snd (loop_step sample_env (Line (lit ''help'')) sample_session))) = 52"
    using c5 by (simp add: sample_session_def command_list_def)
  have d6: "loop_step sample_env (Line (lit ''exit'')) sample_session =
       (Exited 0,
        \<lparr>log = [Printout (lit ''Run a command: '') (Some YELLOW), Invoke SysExit],
         api = \<lparr>writeFile = False, jsonDump = False, hidden = 0\<rparr>\<rparr>)"
    using c6 by (simp add: sample_session_def)
  from h0 d0 si c3 h1 d1 d2 h3 d4 h4 d5 h5 d6 show ?thesis
    by (intro conjI) (simp_all only: simp_thms)
qed

lemma run_loop_Running:
  "loop_step E i s = (Running, s') \<Longrightarrow> run_loop E (i # rest) s = run_loop E rest s'"
  by simp


text \<open>
  C2 as stated, for every exception, fails on \<^verbatim>\<open>SystemExit\<close>: the registry's own \<^verbatim>\<open>quit\<close>
  raises it through \<^verbatim>\<open>sys.exit\<close>, and so may a method of the collaborator. The loop does
  not catch it and prints no error line; the session ends with the status and the next
  line is never read.
\<close>

theorem failing_command_terminates:
  "map_of commands (strip (lit ''quit'')) = Some SysExit
   \<and> fst (invoke sample_env SysExit
        (printout (lit ''Run a command: '') (Some YELLOW) sample_session)) = Exit 0
   \<and> run_loop sample_env [Line (lit ''quit''), Line (lit ''info'')] sample_session =
       (Exited 0,
        \<lparr>log = [Printout (lit ''Run a command: '') (Some YELLOW), Invoke SysExit],
         api = \<lparr>writeFile = False, jsonDump = False, hidden = 0\<rparr>\<rparr>)
   \<and> map_of commands (strip (lit ''cache'')) = Some (Bound clear_cache)
   \<and> call_method sample_env clear_cache (api sample_session) =
       (Exit 3, \<lparr>writeFile = False, jsonDump = False, hidden = 0\<rparr>)
   \<and> run_loop sample_env [Line (lit ''cache''), Line (lit ''info'')] sample_session =
       (Exited 3,
        \<lparr>log = [Printout (lit ''Run a command: '') (Some YELLOW), Invoke (Bound clear_cache)],
         api = \<lparr>writeFile = False, jsonDump = False, hidden = 0\<rparr>\<rparr>)"
proof -
  have sq: "strip (lit ''quit'') = lit ''quit''"
    by (simp add: strip_def lit_def isspace_def)
  have hq: "map_of commands (strip (lit ''quit'')) = Some SysExit"
    by (simp add: sq commands_quit_exit)
  have sc: "strip (lit ''cache'') = lit ''cache''"
    by (simp add: strip_def lit_def isspace_def)
  have hc: "map_of commands (strip (lit ''cache'')) = Some (Bound clear_cache)"
    by (simp add: sc commands_def)
  have m: "call_method sample_env clear_cache (api sample_session) =
       (Exit 3, \<lparr>writeFile = False, jsonDump = False, hidden = 0\<rparr>)"
    by (simp add: sample_env_def sample_method_def sample_session_def)
  have q: "loop_step sample_env (Line (lit ''quit'')) sample_session =
       (Exited 0,
        \<lparr>log = [Printout (lit ''Run a command: '') (Some YELLOW), Invoke SysExit],
         api = \<lparr>writeFile = False, jsonDump = False, hidden = 0\<rparr>\<rparr>)"
    by (simp add: loop_step_SysExit [OF hq] sample_session_def)
  have c: "loop_step sample_env (Line (lit ''cache'')) sample_session =
       (Exited 3,
        \<lparr>log = [Printout (lit ''Run a command: '') (Some YELLOW), Invoke (Bound clear_cache)],
         api = \<lparr>writeFile = False, jsonDump = False, hidden = 0\<rparr>\<rparr>)"
    by (simp add: loop_step_Bound [OF hc] m) (simp add: sample_session_def)
  show ?thesis
    by (simp add: hq hc m q c invoke_SysExit)
qed

text \<open>
  C2, for ordinary exceptions: when the callable that a line resolves to in the registry
  raises an instance of \<^verbatim>\<open>Exception\<close> (for a bound method or a full-data command: when
  the method of the collaborator raises it), the loop catches it, prints the error
  message made of \<^verbatim>\<open>Error: \<close>, the text of the exception and a newline, and stays at the
  prompt: the rest of the input is read as before, so such a failure does not end the
  session. When the callable raises \<^verbatim>\<open>SystemExit\<close> instead, the loop does not catch it:
  the step and the loop end with that exit status.
\<close>

theorem command_exception_caught:
  "(map_of commands (strip l) = Some f
      \<and> invoke E f (printout (lit ''Run a command: '') (Some YELLOW) s) = (Raise e, s') \<longrightarrow>
      loop_step E (Line l) s = (Running, printout (lit ''Error: '' @ e @ NL) (Some RED) s')
      \<and> run_loop E (Line l # rest) s =
          run_loop E rest (printout (lit ''Error: '' @ e @ NL) (Some RED) s'))
   \<and> (map_of commands (strip l1) = Some f1 \<and> (f1 = Bound m \<or> f1 = FullData m title)
      \<and> call_method E m (api s) = (Raise e1, a) \<longrightarrow>
      loop_step E (Line l1) s =
        (Running,
         \<lparr>log = log s @ [Printout (lit ''Run a command: '') (Some YELLOW), Invoke f1,
                         Printout (lit ''Error: '' @ e1 @ NL) (Some RED)],
          api = a\<rparr>)
      \<and> run_loop E (Line l1 # rest) s =
          run_loop E rest
            \<lparr>log = log s @ [Printout (lit ''Run a command: '') (Some YELLOW), Invoke f1,
                            Printout (lit ''Error: '' @ e1 @ NL) (Some RED)],
             api = a\<rparr>)
   \<and> (map_of commands (strip l2) = Some f2
      \<and> invoke E f2 (printout (lit ''Run a command: '') (Some YELLOW) s) = (Exit n, s2) \<longrightarrow>
      loop_step E (Line l2) s = (Exited n, s2)
      \<and> run_loop E (Line l2 # rest) s = (Exited n, s2))"
proof -
  have a: "loop_step E (Line l) s = (Running, printout (lit ''Error: '' @ e @ NL) (Some RED) s')
      \<and> run_loop E (Line l # rest) s =
          run_loop E rest (printout (lit ''Error: '' @ e @ NL) (Some RED) s')"
    if "map_of commands (strip l) = Some f"
      and "invoke E f (printout (lit ''Run a command: '') (Some YELLOW) s) = (Raise e, s')"
  proof -
    from that have "loop_step E (Line l) s =
        (Running, printout (lit ''Error: '' @ e @ NL) (Some RED) s')"
      by (simp add: loop_step_registered except_Exception_def)
    then show ?thesis by (simp only: run_loop_Running simp_thms)
  qed
  have b: "loop_step E (Line l1) s =
        (Running,
         \<lparr>log = log s @ [Printout (lit ''Run a command: '') (Some YELLOW), Invoke f1,
                         Printout (lit ''Error: '' @ e1 @ NL) (Some RED)],
          api = a\<rparr>)
      \<and> run_loop E (Line l1 # rest) s =
          run_loop E rest
            \<lparr>log = log s @ [Printout (lit ''Run a command: '') (Some YELLOW), Invoke f1,
                            Printout (lit ''Error: '' @ e1 @ NL) (Some RED)],
             api = a\<rparr>"
    if r: "map_of commands (strip l1) = Some f1" and k: "f1 = Bound m \<or> f1 = FullData m title"
      and c: "call_method E m (api s) = (Raise e1, a)"
  proof -
    from k have "loop_step E (Line l1) s =
        (Running,
         \<lparr>log = log s @ [Printout (lit ''Run a command: '') (Some YELLOW), Invoke f1,
                         Printout (lit ''Error: '' @ e1 @ NL) (Some RED)],
          api = a\<rparr>)"
    proof
      assume "f1 = Bound m"
      with r c show ?thesis by (simp add: loop_step_Bound)
    next
      assume "f1 = FullData m title"
      with r c show ?thesis by (simp add: loop_step_FullData)
    qed
    then show ?thesis by (simp only: run_loop_Running simp_thms)
  qed
  have x: "loop_step E (Line l2) s = (Exited n, s2)
      \<and> run_loop E (Line l2 # rest) s = (Exited n, s2)"
    if "map_of commands (strip l2) = Some f2"
      and "invoke E f2 (printout (lit ''Run a command: '') (Some YELLOW) s) = (Exit n, s2)"
  proof -
    from that have "loop_step E (Line l2) s = (Exited n, s2)"
      by (simp add: loop_step_registered except_Exception_def)
    then show ?thesis by simp
  qed
  from a b x show ?thesis by blast
qed

theorem command_exception_caught_witness:
  "map_of commands (strip (lit ''captions'')) = Some (Bound get_captions)
   \<and> call_method sample_env get_captions (api sample_session) =
       (Raise (lit ''no posts''), \<lparr>writeFile = False, jsonDump = False, hidden = 0\<rparr>)
   \<and> loop_step sample_env (Line (lit ''captions'')) sample_session =
      (Running,
       \<lparr>log = [Printout (lit ''Run a command: '') (Some YELLOW), Invoke (Bound get_captions),
               Printout (lit ''Error: no posts'' @ NL) (Some RED)],
        api = \<lparr>writeFile = False, jsonDump = False, hidden = 0\<rparr>\<rparr>)
   \<and> run_loop sample_env [Line (lit ''captions''), Line (lit ''info'')] sample_session =
      (Running,
       \<lparr>log = [Printout (lit ''Run a command: '') (Some YELLOW), Invoke (Bound get_captions),
               Printout (lit ''Error: no posts'' @ NL) (Some RED),
               Printout (lit ''Run a command: '') (Some YELLOW), Invoke (Bound get_user_info)],
        api = \<lparr>writeFile = False, jsonDump = False, hidden = 1\<rparr>\<rparr>)
   \<and> map_of commands (strip (lit ''cache'')) = Some (Bound clear_cache)
   \<and> run_loop sample_env [Line (lit ''cache''), Line (lit ''info'')] sample_session =
      (Exited 3,
       \<lparr>log = [Printout (lit ''Run a command: '') (Some YELLOW), Invoke (Bound clear_cache)],
        api = \<lparr>writeFile = False, jsonDump = False, hidden = 0\<rparr>\<rparr>)"
proof -
  let ?p = "Printout (lit ''Run a command: '') (Some YELLOW)"
  let ?api = "\<lparr>writeFile = False, jsonDump = False, hidden = 0::nat\<rparr>"
  let ?s' = "\<lparr>log = [?p, Invoke (Bound get_captions)], api = ?api\<rparr>"
  let ?s2 = "\<lparr>log = [?p, Invoke (Bound clear_cache)], api = ?api\<rparr>"
  let ?s3 = "\<lparr>log = [?p, Invoke (Bound get_captions),
                      Printout (lit ''Error: '' @ lit ''no posts'' @ NL) (Some RED)],
              api = ?api\<rparr>"
  have sc: "strip (lit ''captions'') = lit ''captions''"
    by (simp add: strip_def lit_def isspace_def)
  have h1: "map_of commands (strip (lit ''captions'')) = Some (Bound get_captions)"
    by (simp add: sc commands_def)
  have h2: "invoke sample_env (Bound get_captions)
       (printout (lit ''Run a command: '') (Some YELLOW) sample_session) =
     (Raise (lit ''no posts''), ?s')"
    by (simp add: invoke_def sample_env_def sample_method_def sample_session_def printout_def)
  have h3: "Bound get_captions = Bound get_captions \<or> Bound get_captions = FullData get_captions []"
    by simp
  have h4: "call_method sample_env get_captions (api sample_session) = (Raise (lit ''no posts''), ?api)"
    by (simp add: sample_env_def sample_method_def sample_session_def)
  have sk: "strip (lit ''cache'') = lit ''cache''"
    by (simp add: strip_def lit_def isspace_def)
  have h5: "map_of commands (strip (lit ''cache'')) = Some (Bound clear_cache)"
    by (simp add: sk commands_def)
  have h6: "invoke sample_env (Bound clear_cache)
       (printout (lit ''Run a command: '') (Some YELLOW) sample_session) = (Exit 3, ?s2)"
    by (simp add: invoke_def sample_env_def sample_method_def sample_session_def printout_def)
  note t = command_exception_caught [where E = sample_env and s = sample_session
      and l = "lit ''captions''" and f = "Bound get_captions" and e = "lit ''no posts''"
      and s' = ?s' and rest = "[Line (lit ''info'')]"
      and ?l1.0 = "lit ''captions''" and ?f1.0 = "Bound get_captions" and m = get_captions
      and title = "[]" and ?e1.0 = "lit ''no posts''" and a = ?api
      and ?l2.0 = "lit ''cache''" and ?f2.0 = "Bound clear_cache" and n = 3 and ?s2.0 = ?s2]
  from t h1 h2 have c1: "loop_step sample_env (Line (lit ''captions'')) sample_session =
      (Running, printout (lit ''Error: '' @ lit ''no posts'' @ NL) (Some RED) ?s')"
    by blast
  from t h1 h3 h4 have c2:
    "run_loop sample_env [Line (lit ''captions''), Line (lit ''info'')] sample_session =
       run_loop sample_env [Line (lit ''info'')]
         \<lparr>log = log sample_session @ [?p, Invoke (Bound get_captions),
               Printout (lit ''Error: '' @ lit ''no posts'' @ NL) (Some RED)],
          api = ?api\<rparr>"
    by blast
  from t h5 h6 have c3:
    "run_loop sample_env [Line (lit ''cache''), Line (lit ''info'')] sample_session = (Exited 3, ?s2)"
    by blast
  have si: "strip (lit ''info'') = lit ''info''"
    by (simp add: strip_def lit_def isspace_def)
  have hi: "map_of commands (strip (lit ''info'')) = Some (Bound get_user_info)"
    by (simp add: si commands_def)
  have i: "run_loop sample_env [Line (lit ''info'')] ?s3 =
      (Running,
       \<lparr>log = [?p, Invoke (Bound get_captions),
               Printout (lit ''Error: '' @ lit ''no posts'' @ NL) (Some RED),
               ?p, Invoke (Bound get_user_info)],
        api = \<lparr>writeFile = False, jsonDump = False, hidden = 1\<rparr>\<rparr>)"
    by (simp add: loop_step_Bound [OF hi] sample_env_def sample_method_def)
  have d1: "loop_step sample_env (Line (lit ''captions'')) sample_session =
      (Running,
       \<lparr>log = [?p, Invoke (Bound get_captions), Printout (lit ''Error: no posts'' @ NL) (Some RED)],
        api = ?api\<rparr>)"
    using c1 by (simp add: printout_def lit_def)
  have d2: "run_loop sample_env [Line (lit ''captions''), Line (lit ''info'')] sample_session =
      (Running,
       \<lparr>log = [?p, Invoke (Bound get_captions), Printout (lit ''Error: no posts'' @ NL) (Some RED),
               ?p, Invoke (Bound get_user_info)],
        api = \<lparr>writeFile = False, jsonDump = False, hidden = 1\<rparr>\<rparr>)"
    using c2 i by (simp add: sample_session_def lit_def)
  from h1 h4 d1 d2 h5 c3 show ?thesis
    by (intro conjI) (simp_all only: simp_thms)
qed

text \<open>
  C3: a line whose stripped text is not empty, is no key of the registry and is none of
  \<^verbatim>\<open>FILE=y\<close>, \<^verbatim>\<open>FILE=n\<close>, \<^verbatim>\<open>JSON=y\<close>, \<^verbatim>\<open>JSON=n\<close> makes the step print the prompt and
  then \<^verbatim>\<open>Unknown command\<close>, and nothing else: no exception leaves the step, the
  collaborator is not touched, no callable is called, and the loop is at the prompt again.
\<close>

theorem unknown_command:
  assumes "strip l \<noteq> []"
    and "map_of commands (strip l) = None"
    and "strip l \<notin> {lit ''FILE=y'', lit ''FILE=n'', lit ''JSON=y'', lit ''JSON=n''}"
  shows "try_body E (Line l) s =
      (Return (), printout (lit ''Unknown command'' @ NL) (Some RED)
                    (printout (lit ''Run a command: '') (Some YELLOW) s))
    \<and> loop_step E (Line l) s =
      (Running, printout (lit ''Unknown command'' @ NL) (Some RED)
                  (printout (lit ''Run a command: '') (Some YELLOW) s))
    \<and> api (snd (loop_step E (Line l) s)) = api s
    \<and> invocations (log (snd (loop_step E (Line l) s))) = invocations (log s)
    \<and> run_loop E (Line l # rest) s =
        run_loop E rest (printout (lit ''Unknown command'' @ NL) (Some RED)
                           (printout (lit ''Run a command: '') (Some YELLOW) s))"
proof -
  from assms have b: "try_body E (Line l) s =
      (Return (), printout (lit ''Unknown command'' @ NL) (Some RED)
                    (printout (lit ''Run a command: '') (Some YELLOW) s))"
    by (simp add: try_body_Line dispatch_unknown)
  then have st: "loop_step E (Line l) s =
      (Running, printout (lit ''Unknown command'' @ NL) (Some RED)
                  (printout (lit ''Run a command: '') (Some YELLOW) s))"
    by (simp add: loop_step_def except_Exception_def)
  then have "run_loop E (Line l # rest) s =
        run_loop E rest (printout (lit ''Unknown command'' @ NL) (Some RED)
                           (printout (lit ''Run a command: '') (Some YELLOW) s))"
    by (rule run_loop_Running)
  with b st show ?thesis by simp
qed

theorem unknown_command_witness:
  "strip (lit '' followers now '') \<noteq> []
   \<and> map_of commands (strip (lit '' followers now '')) = None
   \<and> strip (lit '' followers now '') \<notin> {lit ''FILE=y'', lit ''FILE=n'', lit ''JSON=y'', lit ''JSON=n''}
   \<and> loop_step sample_env (Line (lit '' followers now '')) sample_session =
      (Running,
       \<lparr>log = [Printout (lit ''Run a command: '') (Some YELLOW),
               Printout (lit ''Unknown command'' @ NL) (Some RED)],
        api = \<lparr>writeFile = False, jsonDump = False, hidden = 0\<rparr>\<rparr>)"
proof -
  have e: "strip (lit '' followers now '') = lit ''followers now''"
    by (simp add: strip_def lit_def isspace_def)
  have h1: "strip (lit '' followers now '') \<noteq> []"
    by (simp add: e)
  have h2: "map_of commands (strip (lit '' followers now '')) = None"
    by (simp add: e commands_def)
  have h3: "strip (lit '' followers now '') \<notin>
      {lit ''FILE=y'', lit ''FILE=n'', lit ''JSON=y'', lit ''JSON=n''}"
    by (simp add: e)
  from unknown_command [OF h1 h2 h3, of sample_env sample_session "[]"] h1 h2 h3
  show ?thesis
    by (simp add: sample_session_def printout_def)
qed

lemma loop_step_toggle:
  "strip l = lit ''FILE=y'' \<Longrightarrow> loop_step E (Line l) s =
     (Running, (printout (lit ''Run a command: '') (Some YELLOW) s)\<lparr>api := (api s)\<lparr>writeFile := True\<rparr>\<rparr>)"
  "strip l = lit ''FILE=n'' \<Longrightarrow> loop_step E (Line l) s =
     (Running, (printout (lit ''Run a command: '') (Some YELLOW) s)\<lparr>api := (api s)\<lparr>writeFile := False\<rparr>\<rparr>)"
  "strip l = lit ''JSON=y'' \<Longrightarrow> loop_step E (Line l) s =
     (Running, (printout (lit ''Run a command: '') (Some YELLOW) s)\<lparr>api := (api s)\<lparr>jsonDump := True\<rparr>\<rparr>)"
  "strip l = lit ''JSON=n'' \<Longrightarrow> loop_step E (Line l) s =
     (Running, (printout (lit ''Run a command: '') (Some YELLOW) s)\<lparr>api := (api s)\<lparr>jsonDump := False\<rparr>\<rparr>)"
  by (simp_all add: loop_step_def try_body_Line dispatch_toggles except_Exception_def)

lemma toggle_twice:
  assumes "strip l \<in> {lit ''FILE=y'', lit ''FILE=n'', lit ''JSON=y'', lit ''JSON=n''}"
  shows "fst (run_loop E [Line l, Line l] s) = Running"
    and "fst (run_loop E [Line l] s) = Running"
    and "api (snd (run_loop E [Line l, Line l] s)) = api (snd (run_loop E [Line l] s))"
  using assms by (auto simp: loop_step_toggle)

text \<open>
  C4: the four directives are no keys of the registry. A line that strips to
  \<^verbatim>\<open>FILE=y\<close> or \<^verbatim>\<open>FILE=n\<close> sets the write-to-file flag of the collaborator to true or false,
  one that strips to \<^verbatim>\<open>JSON=y\<close> or \<^verbatim>\<open>JSON=n\<close> sets the JSON-export flag to true or
  false, and nothing else of the collaborator changes. After \<^verbatim>\<open>FILE=y\<close> and then \<^verbatim>\<open>FILE=n\<close>
  the write-to-file flag is false, and entering a directive twice leaves the collaborator
  as entering it once does.
\<close>

theorem toggle_directives:
  "map_of commands (lit ''FILE=y'') = None \<and> map_of commands (lit ''FILE=n'') = None
   \<and> map_of commands (lit ''JSON=y'') = None \<and> map_of commands (lit ''JSON=n'') = None
   \<and> (strip l1 = lit ''FILE=y'' \<longrightarrow>
        fst (loop_step E (Line l1) s) = Running
        \<and> api (snd (loop_step E (Line l1) s)) = (api s)\<lparr>writeFile := True\<rparr>)
   \<and> (strip l2 = lit ''FILE=n'' \<longrightarrow>
        fst (loop_step E (Line l2) s) = Running
        \<and> api (snd (loop_step E (Line l2) s)) = (api s)\<lparr>writeFile := False\<rparr>)
   \<and> (strip l3 = lit ''JSON=y'' \<longrightarrow>
        fst (loop_step E (Line l3) s) = Running
        \<and> api (snd (loop_step E (Line l3) s)) = (api s)\<lparr>jsonDump := True\<rparr>)
   \<and> (strip l4 = lit ''JSON=n'' \<longrightarrow>
        fst (loop_step E (Line l4) s) = Running
        \<and> api (snd (loop_step E (Line l4) s)) = (api s)\<lparr>jsonDump := False\<rparr>)
   \<and> (strip l1 = lit ''FILE=y'' \<and> strip l2 = lit ''FILE=n'' \<longrightarrow>
        fst (run_loop E [Line l1, Line l2] s) = Running
        \<and> writeFile (api (snd (run_loop E [Line l1, Line l2] s))) = False)
   \<and> (strip l \<in> {lit ''FILE=y'', lit ''FILE=n'', lit ''JSON=y'', lit ''JSON=n''} \<longrightarrow>
        api (snd (run_loop E [Line l, Line l] s)) = api (snd (run_loop E [Line l] s)))"
proof -
  have yn: "strip l1 = lit ''FILE=y'' \<and> strip l2 = lit ''FILE=n'' \<longrightarrow>
        fst (run_loop E [Line l1, Line l2] s) = Running
        \<and> writeFile (api (snd (run_loop E [Line l1, Line l2] s))) = False"
    by (simp add: loop_step_toggle)
  have tw: "strip l \<in> {lit ''FILE=y'', lit ''FILE=n'', lit ''JSON=y'', lit ''JSON=n''} \<longrightarrow>
        api (snd (run_loop E [Line l, Line l] s)) = api (snd (run_loop E [Line l] s))"
    using toggle_twice(3) by blast
  from yn tw show ?thesis
    by (simp add: commands_toggles loop_step_toggle)
qed

theorem toggle_directives_witness:
  "strip (lit ''FILE=y'') = lit ''FILE=y'' \<and> strip (lit '' FILE=n'') = lit ''FILE=n''
   \<and> strip (lit ''JSON=y  '') = lit ''JSON=y'' \<and> strip (lit ''JSON=n'') = lit ''JSON=n''
   \<and> api (snd (loop_step sample_env (Line (lit ''FILE=y'')) sample_session)) =
        \<lparr>writeFile = True, jsonDump = False, hidden = 0\<rparr>
   \<and> api (snd (loop_step sample_env (Line (lit ''JSON=y  '')) sample_session)) =
        \<lparr>writeFile = False, jsonDump = True, hidden = 0\<rparr>
   \<and> writeFile (api (snd (run_loop sample_env [Line (lit ''FILE=y''), Line (lit '' FILE=n'')]
        sample_session))) = False
   \<and> api (snd (run_loop sample_env [Line (lit ''FILE=y''), Line (lit ''FILE=y'')] sample_session)) =
       api (snd (run_loop sample_env [Line (lit ''FILE=y'')] sample_session))"
proof -
  have h1: "strip (lit ''FILE=y'') = lit ''FILE=y''"
    by (simp add: strip_def lit_def isspace_def)
  have h2: "strip (lit '' FILE=n'') = lit ''FILE=n''"
    by (simp add: strip_def lit_def isspace_def)
  have h3: "strip (lit ''JSON=y  '') = lit ''JSON=y''"
    by (simp add: strip_def lit_def isspace_def)
  have h4: "strip (lit ''JSON=n'') = lit ''JSON=n''"
    by (simp add: strip_def lit_def isspace_def)
  have h5: "strip (lit ''FILE=y'') \<in> {lit ''FILE=y'', lit ''FILE=n'', lit ''JSON=y'', lit ''JSON=n''}"
    by (simp only: h1 insertI1)
  note t = toggle_directives [of "lit ''FILE=y''" sample_env sample_session "lit '' FILE=n''"
      "lit ''JSON=y  ''" "lit ''JSON=n''" "lit ''FILE=y''"]
  from t h1 have c1: "api (snd (loop_step sample_env (Line (lit ''FILE=y'')) sample_session)) =
      (api sample_session)\<lparr>writeFile := True\<rparr>"
    by blast
  from t h3 have c3: "api (snd (loop_step sample_env (Line (lit ''JSON=y  '')) sample_session)) =
      (api sample_session)\<lparr>jsonDump := True\<rparr>"
    by blast
  from t h1 h2 have c5:
    "writeFile (api (snd (run_loop sample_env [Line (lit ''FILE=y''), Line (lit '' FILE=n'')]
        sample_session))) = False"
    by blast
  from t h5 have c6:
    "api (snd (run_loop sample_env [Line (lit ''FILE=y''), Line (lit ''FILE=y'')] sample_session)) =
       api (snd (run_loop sample_env [Line (lit ''FILE=y'')] sample_session))"
    by blast
  have a: "api sample_session = \<lparr>writeFile = False, jsonDump = False, hidden = 0\<rparr>"
    by (simp add: sample_session_def)
  from h1 h2 h3 h4 c1 c3 c5 c6 show ?thesis
    by (simp only: a simp_thms osintgram.simps)
qed

section \<open>Startup\<close>

lemma isalnum_examples:
  "isalnum uni (lit ''abc123'')" "\<not> isalnum uni (lit ''abc-123'')" "\<not> isalnum uni (lit ''abc 123'')"
  by (simp_all add: isalnum_def lit_def ascii_alnum_def)

text \<open>
  C5: when the username given at launch is not alphanumeric, \<^verbatim>\<open>main\<close> prints the error
  message and exits with status 1; the collaborator is not constructed and nothing else
  is printed or called. When it is alphanumeric, \<^verbatim>\<open>main\<close> goes on with the construction
  of the collaborator. \<^verbatim>\<open>abc-123\<close> and \<^verbatim>\<open>abc 123\<close> are rejected and \<^verbatim>\<open>abc123\<close> is accepted,
  whatever the rest of the command line.
\<close>

theorem startup_validation:
  "(\<not> isalnum (unicode_alnum E) (args_id a) \<longrightarrow>
      main E a inputs =
        (Exited 1,
         [Printout (lit ''Invalid Instagram username. It should be alphanumeric.'' @ NL) (Some RED)],
         None)
      \<and> exit_status (fst (main E a inputs)) = Some 1)
   \<and> (isalnum (unicode_alnum E) (args_id b) \<longrightarrow> main E b inputs = start_session E b inputs)
   \<and> main E (c\<lparr>args_id := lit ''abc-123''\<rparr>) inputs =
        (Exited 1,
         [Printout (lit ''Invalid Instagram username. It should be alphanumeric.'' @ NL) (Some RED)],
         None)
   \<and> main E (c\<lparr>args_id := lit ''abc 123''\<rparr>) inputs =
        (Exited 1,
         [Printout (lit ''Invalid Instagram username. It should be alphanumeric.'' @ NL) (Some RED)],
         None)
   \<and> main E (c\<lparr>args_id := lit ''abc123''\<rparr>) inputs =
        start_session E (c\<lparr>args_id := lit ''abc123''\<rparr>) inputs"
  by (simp add: main_def isalnum_examples)

theorem startup_validation_witness:
  "\<not> isalnum (unicode_alnum sample_env) (args_id (sample_args (lit ''user_name'') None))
   \<and> main sample_env (sample_args (lit ''user_name'') None) [Line (lit ''list'')] =
       (Exited 1,
        [Printout (lit ''Invalid Instagram username. It should be alphanumeric.'' @ NL) (Some RED)],
        None)
   \<and> isalnum (unicode_alnum sample_env) (args_id (sample_args (lit ''abc'' @ [233]) None))
   \<and> main sample_env (sample_args (lit ''abc'' @ [233]) None) [Line (lit ''list'')] =
       start_session sample_env (sample_args (lit ''abc'' @ [233]) None) [Line (lit ''list'')]"
proof -
  have h1: "\<not> isalnum (unicode_alnum sample_env) (args_id (sample_args (lit ''user_name'') None))"
    by (simp add: isalnum_def sample_env_def sample_args_def lit_def ascii_alnum_def)
  have h2: "isalnum (unicode_alnum sample_env) (args_id (sample_args (lit ''abc'' @ [233]) None))"
    by (simp add: isalnum_def sample_env_def sample_args_def lit_def ascii_alnum_def)
  note t = startup_validation [of sample_env "sample_args (lit ''user_name'') None"
      "[Line (lit ''list'')]" "sample_args (lit ''abc'' @ [233]) None"]
  from t h1 h2 show ?thesis by blast
qed

section \<open>Single-command mode\<close>

lemma main_single:
  assumes "isalnum (unicode_alnum E) (args_id a)" and "Osintgram E a = Return api0"
    and "args_command a = Some c" and "c \<noteq> []"
  shows "main E a inputs =
    (fst (single_command E c \<lparr>log = [], api = api0\<rparr>),
     log (snd (single_command E c \<lparr>log = [], api = api0\<rparr>)),
     Some (api (snd (single_command E c \<lparr>log = [], api = api0\<rparr>))))"
  using assms by (simp add: main_def start_session_def Let_def)

lemma fst_propagate:
  "fst (propagate r) =
     (case fst r of Return u \<Rightarrow> Returned | Raise e \<Rightarrow> Uncaught e | Exit n \<Rightarrow> Exited n)"
  by (simp add: propagate_def split: prod.split result.split)

lemma snd_propagate: "snd (propagate r) = snd r"
  by (simp add: propagate_def split: prod.split result.split)

lemma single_command_registered:
  "map_of commands c = Some f \<Longrightarrow> single_command E c s = propagate (invoke E f s)"
  by (simp add: single_command_def)

lemma single_command_unknown:
  "map_of commands c = None \<Longrightarrow>
   single_command E c s = (Returned, printout (lit ''Unknown command: '' @ c @ NL) (Some RED) s)"
  by (simp add: single_command_def)

lemma main_empty_command:
  assumes "isalnum (unicode_alnum E) (args_id a)" and "Osintgram E a = Return api0"
    and "args_command a = Some []"
  shows "main E a inputs =
    (fst (run_loop E inputs (print_logo E \<lparr>log = [], api = api0\<rparr>)),
     log (snd (run_loop E inputs (print_logo E \<lparr>log = [], api = api0\<rparr>))),
     Some (api (snd (run_loop E inputs (print_logo E \<lparr>log = [], api = api0\<rparr>)))))"
  using assms by (simp add: main_def start_session_def Let_def)

lemma main_registered:
  assumes "isalnum (unicode_alnum E) (args_id a)" and "Osintgram E a = Return api0"
    and "args_command a = Some c" and "c \<noteq> []" and "map_of commands c = Some f"
  shows "main E a inputs =
        (fst (propagate (invoke E f \<lparr>log = [], api = api0\<rparr>)),
         log (snd (invoke E f \<lparr>log = [], api = api0\<rparr>)),
         Some (api (snd (invoke E f \<lparr>log = [], api = api0\<rparr>))))"
  using assms(5)
  by (simp add: main_single [OF assms(1-4)] single_command_registered snd_propagate)

text \<open>
  C7, for a command name that is not the empty string: \<^verbatim>\<open>main\<close> looks the name up in the
  registry. A registered name has its callable called exactly once (a bound method runs
  once on the collaborator as constructed, a full-data command prints what that one call
  returned, the command list is printed once), and \<^verbatim>\<open>main\<close> ends as that call ends: it
  returns when the call returns, and what the call raises, \<^verbatim>\<open>SystemExit\<close> or an exception,
  leaves \<^verbatim>\<open>main\<close>. An unregistered name makes \<^verbatim>\<open>main\<close> print \<^verbatim>\<open>Unknown command: \<close> with the
  name and return. Neither way is the interactive loop entered: no input is read and
  \<^verbatim>\<open>main\<close> does not stay at a prompt. When the command returns, the process ends with
  status 0, as it does for the unknown name.
\<close>

theorem single_command_mode:
  "(isalnum (unicode_alnum E) (args_id a) \<and> Osintgram E a = Return api0
      \<and> args_command a = Some c \<and> c \<noteq> [] \<and> map_of commands c = Some f \<longrightarrow>
      main E a inputs =
        (fst (propagate (invoke E f \<lparr>log = [], api = api0\<rparr>)),
         log (snd (invoke E f \<lparr>log = [], api = api0\<rparr>)),
         Some (api (snd (invoke E f \<lparr>log = [], api = api0\<rparr>))))
      \<and> fst (main E a inputs) =
          (case fst (invoke E f \<lparr>log = [], api = api0\<rparr>) of
             Return u \<Rightarrow> Returned | Raise e \<Rightarrow> Uncaught e | Exit n \<Rightarrow> Exited n)
      \<and> invocations (fst (snd (main E a inputs))) = [f]
      \<and> fst (main E a inputs) \<noteq> Running
      \<and> main E a inputs = main E a []
      \<and> (fst (invoke E f \<lparr>log = [], api = api0\<rparr>) = Return () \<longrightarrow>
           fst (main E a inputs) = Returned \<and> exit_status (fst (main E a inputs)) = Some 0)
      \<and> (f = Bound m \<longrightarrow>
           main E a inputs =
             (case call_method E m api0 of
                (Return v, a') \<Rightarrow> (Returned, [Invoke (Bound m)], Some a')
              | (Raise e, a') \<Rightarrow> (Uncaught e, [Invoke (Bound m)], Some a')
              | (Exit n, a') \<Rightarrow> (Exited n, [Invoke (Bound m)], Some a')))
      \<and> (f = FullData m title \<longrightarrow>
           main E a inputs =
             (case call_method E m api0 of
                (Return data, a') \<Rightarrow>
                  (Returned,
                   log (print_full_data data title
                          \<lparr>log = [Invoke (FullData m title)], api = a'\<rparr>),
                   Some a')
              | (Raise e, a') \<Rightarrow> (Uncaught e, [Invoke (FullData m title)], Some a')
              | (Exit n, a') \<Rightarrow> (Exited n, [Invoke (FullData m title)], Some a')))
      \<and> (f = PrintCommands \<longrightarrow>
           main E a inputs =
             (Returned,
              Invoke PrintCommands #
                concat (map (\<lambda>(cmd, desc). [Printout (cmd @ TAB @ TAB) None, Print desc])
                          command_list),
              Some api0))
      \<and> (f = SysExit \<longrightarrow> main E a inputs = (Exited 0, [Invoke SysExit], Some api0)))
   \<and> (isalnum (unicode_alnum E) (args_id b) \<and> Osintgram E b = Return api1
      \<and> args_command b = Some d \<and> d \<noteq> [] \<and> map_of commands d = None \<longrightarrow>
      main E b inputs =
        (Returned, [Printout (lit ''Unknown command: '' @ d @ NL) (Some RED)], Some api1)
      \<and> main E b inputs = main E b []
      \<and> exit_status (fst (main E b inputs)) = Some 0)"
proof -
  let ?s0 = "\<lparr>log = [], api = api0\<rparr>"
  have reg: "main E a inputs =
        (fst (propagate (invoke E f ?s0)), log (snd (invoke E f ?s0)),
         Some (api (snd (invoke E f ?s0))))
      \<and> fst (main E a inputs) =
          (case fst (invoke E f ?s0) of
             Return u \<Rightarrow> Returned | Raise e \<Rightarrow> Uncaught e | Exit n \<Rightarrow> Exited n)
      \<and> invocations (fst (snd (main E a inputs))) = [f]
      \<and> fst (main E a inputs) \<noteq> Running
      \<and> main E a inputs = main E a []
      \<and> (fst (invoke E f ?s0) = Return () \<longrightarrow>
           fst (main E a inputs) = Returned \<and> exit_status (fst (main E a inputs)) = Some 0)
      \<and> (f = Bound m \<longrightarrow>
           main E a inputs =
             (case call_method E m api0 of
                (Return v, a') \<Rightarrow> (Returned, [Invoke (Bound m)], Some a')
              | (Raise e, a') \<Rightarrow> (Uncaught e, [Invoke (Bound m)], Some a')
              | (Exit n, a') \<Rightarrow> (Exited n, [Invoke (Bound m)], Some a')))
      \<and> (f = FullData m title \<longrightarrow>
           main E a inputs =
             (case call_method E m api0 of
                (Return data, a') \<Rightarrow>
                  (Returned,
                   log (print_full_data data title
                          \<lparr>log = [Invoke (FullData m title)], api = a'\<rparr>),
                   Some a')
              | (Raise e, a') \<Rightarrow> (Uncaught e, [Invoke (FullData m title)], Some a')
              | (Exit n, a') \<Rightarrow> (Exited n, [Invoke (FullData m title)], Some a')))
      \<and> (f = PrintCommands \<longrightarrow>
           main E a inputs =
             (Returned,
              Invoke PrintCommands #
                concat (map (\<lambda>(cmd, desc). [Printout (cmd @ TAB @ TAB) None, Print desc])
                          command_list),
              Some api0))
      \<and> (f = SysExit \<longrightarrow> main E a inputs = (Exited 0, [Invoke SysExit], Some api0))"
    if h: "isalnum (unicode_alnum E) (args_id a)" "Osintgram E a = Return api0"
      "args_command a = Some c" "c \<noteq> []" "map_of commands c = Some f"
  proof -
    note m = main_registered [OF h]
    have nr: "fst (propagate (invoke E f ?s0)) \<noteq> Running"
      by (simp add: fst_propagate split: result.split)
    have g: "main E a inputs =
        (fst (propagate (invoke E f ?s0)), log (snd (invoke E f ?s0)),
         Some (api (snd (invoke E f ?s0))))
      \<and> fst (main E a inputs) =
          (case fst (invoke E f ?s0) of
             Return u \<Rightarrow> Returned | Raise e \<Rightarrow> Uncaught e | Exit n \<Rightarrow> Exited n)
      \<and> invocations (fst (snd (main E a inputs))) = [f]
      \<and> fst (main E a inputs) \<noteq> Running
      \<and> main E a inputs = main E a []
      \<and> (fst (invoke E f ?s0) = Return () \<longrightarrow>
           fst (main E a inputs) = Returned \<and> exit_status (fst (main E a inputs)) = Some 0)"
      using nr by (simp add: m fst_propagate)
    have kb: "f = Bound m \<longrightarrow>
           main E a inputs =
             (case call_method E m api0 of
                (Return v, a') \<Rightarrow> (Returned, [Invoke (Bound m)], Some a')
              | (Raise e, a') \<Rightarrow> (Uncaught e, [Invoke (Bound m)], Some a')
              | (Exit n, a') \<Rightarrow> (Exited n, [Invoke (Bound m)], Some a'))"
      by (simp add: m invoke_Bound propagate_def split: prod.split result.split)
    have kf: "f = FullData m title \<longrightarrow>
           main E a inputs =
             (case call_method E m api0 of
                (Return data, a') \<Rightarrow>
                  (Returned,
                   log (print_full_data data title
                          \<lparr>log = [Invoke (FullData m title)], api = a'\<rparr>),
                   Some a')
              | (Raise e, a') \<Rightarrow> (Uncaught e, [Invoke (FullData m title)], Some a')
              | (Exit n, a') \<Rightarrow> (Exited n, [Invoke (FullData m title)], Some a'))"
      by (simp add: m invoke_FullData propagate_def split: prod.split result.split)
    have kp: "f = PrintCommands \<longrightarrow>
           main E a inputs =
             (Returned,
              Invoke PrintCommands #
                concat (map (\<lambda>(cmd, desc). [Printout (cmd @ TAB @ TAB) None, Print desc])
                          command_list),
              Some api0)"
      by (simp add: m invoke_PrintCommands propagate_def)
    have ks: "f = SysExit \<longrightarrow> main E a inputs = (Exited 0, [Invoke SysExit], Some api0)"
      by (simp add: m invoke_SysExit propagate_def)
    from g kb kf kp ks show ?thesis by blast
  qed
  have unk: "main E b inputs =
        (Returned, [Printout (lit ''Unknown command: '' @ d @ NL) (Some RED)], Some api1)
      \<and> main E b inputs = main E b []
      \<and> exit_status (fst (main E b inputs)) = Some 0"
    if h: "isalnum (unicode_alnum E) (args_id b)" "Osintgram E b = Return api1"
      "args_command b = Some d" "d \<noteq> []" and n: "map_of commands d = None"
    by (simp add: main_single [OF h] single_command_unknown [OF n])
  from reg unk show ?thesis by blast
qed

theorem single_command_mode_witness:
  "main sample_env (sample_args (lit ''abc123'') (Some (lit ''info''))) [Line (lit ''quit'')] =
     (Returned, [Invoke (Bound get_user_info)],
      Some \<lparr>writeFile = False, jsonDump = False, hidden = 1\<rparr>)
   \<and> exit_status (fst (main sample_env (sample_args (lit ''abc123'') (Some (lit ''info'')))
        [Line (lit ''quit'')])) = Some 0
   \<and> main sample_env (sample_args (lit ''abc123'') (Some (lit ''fwersemail''))) [] =
     (Returned,
      [Invoke (FullData get_fwersemail (lit ''Follower Emails'')),
       Printout (NL @ lit ''[+] Follower Emails:'' @ NL) (Some GREEN),
       Printout (lit ''  - ann@example.org'' @ NL) (Some CYAN),
       Printout (lit ''  - bob@example.org'' @ NL) (Some CYAN)],
      Some \<lparr>writeFile = False, jsonDump = False, hidden = 1\<rparr>)
   \<and> fst (main sample_env (sample_args (lit ''abc123'') (Some (lit ''help''))) []) = Returned
   \<and> length (fst (snd (main sample_env (sample_args (lit ''abc123'') (Some (lit ''help''))) [])))
       = 51
   \<and> main sample_env (sample_args (lit ''abc123'') (Some (lit ''exit''))) [] =
     (Exited 0, [Invoke SysExit], Some \<lparr>writeFile = False, jsonDump = False, hidden = 0\<rparr>)
   \<and> main sample_env (sample_args (lit ''abc123'') (Some (lit ''infos''))) [Line (lit ''quit'')] =
     (Returned, [Printout (lit ''Unknown command: infos'' @ NL) (Some RED)],
      Some \<lparr>writeFile = False, jsonDump = False, hidden = 0\<rparr>)
   \<and> exit_status (fst (main sample_env (sample_args (lit ''abc123'') (Some (lit ''infos'')))
        [Line (lit ''quit'')])) = Some 0"
proof -
  let ?api = "\<lparr>writeFile = False, jsonDump = False, hidden = 0::nat\<rparr>"
  let ?b = "sample_args (lit ''abc123'') (Some (lit ''infos''))"
  have a1: "isalnum (unicode_alnum sample_env) (args_id (sample_args (lit ''abc123'') c))" for c
    by (simp add: sample_args_def isalnum_examples)
  have a2: "Osintgram sample_env (sample_args (lit ''abc123'') c) = Return ?api" for c
    by (simp add: sample_env_def sample_args_def)
  have a3: "args_command (sample_args (lit ''abc123'') (Some c)) = Some c" for c
    by (simp add: sample_args_def)
  have b5: "map_of commands (lit ''infos'') = None"
    by (simp add: commands_def)
  have b4: "lit ''infos'' \<noteq> []" by simp

  have i4: "lit ''info'' \<noteq> []" by simp
  have i5: "map_of commands (lit ''info'') = Some (Bound get_user_info)"
    by (simp add: commands_def)
  have i6: "fst (invoke sample_env (Bound get_user_info) \<lparr>log = [], api = ?api\<rparr>) = Return ()"
    by (simp add: invoke_def sample_env_def sample_method_def)
  note ti = single_command_mode [where E = sample_env
      and a = "sample_args (lit ''abc123'') (Some (lit ''info''))" and ?api0.0 = ?api
      and c = "lit ''info''" and f = "Bound get_user_info" and m = get_user_info
      and inputs = "[Line (lit ''quit'')]" and b = ?b and ?api1.0 = ?api and d = "lit ''infos''"]
  from ti a1 a2 a3 i4 i5 have ci:
    "main sample_env (sample_args (lit ''abc123'') (Some (lit ''info''))) [Line (lit ''quit'')] =
       (case call_method sample_env get_user_info ?api of
          (Return v, a') \<Rightarrow> (Returned, [Invoke (Bound get_user_info)], Some a')
        | (Raise e, a') \<Rightarrow> (Uncaught e, [Invoke (Bound get_user_info)], Some a')
        | (Exit n, a') \<Rightarrow> (Exited n, [Invoke (Bound get_user_info)], Some a'))"
    by blast
  from ti a1 a2 a3 i4 i5 i6 have ci':
    "exit_status (fst (main sample_env (sample_args (lit ''abc123'') (Some (lit ''info'')))
        [Line (lit ''quit'')])) = Some 0"
    by blast
  from ti a1 a2 a3 b4 b5 have cb: "main sample_env ?b [Line (lit ''quit'')] =
        (Returned, [Printout (lit ''Unknown command: '' @ lit ''infos'' @ NL) (Some RED)], Some ?api)
      \<and> exit_status (fst (main sample_env ?b [Line (lit ''quit'')])) = Some 0"
    by blast

  have f4: "lit ''fwersemail'' \<noteq> []" by simp
  have f5: "map_of commands (lit ''fwersemail'') =
      Some (FullData get_fwersemail (lit ''Follower Emails''))"
    by (simp add: commands_def)
  note tf = single_command_mode [where E = sample_env
      and a = "sample_args (lit ''abc123'') (Some (lit ''fwersemail''))" and ?api0.0 = ?api
      and c = "lit ''fwersemail''" and f = "FullData get_fwersemail (lit ''Follower Emails'')"
      and m = get_fwersemail and title = "lit ''Follower Emails''" and inputs = "[]"]
  from tf a1 a2 a3 f4 f5 have cf:
    "main sample_env (sample_args (lit ''abc123'') (Some (lit ''fwersemail''))) [] =
       (case call_method sample_env get_fwersemail ?api of
          (Return data, a') \<Rightarrow>
            (Returned,
             log (print_full_data data (lit ''Follower Emails'')
                    \<lparr>log = [Invoke (FullData get_fwersemail (lit ''Follower Emails''))],
                     api = a'\<rparr>),
             Some a')
        | (Raise e, a') \<Rightarrow>
            (Uncaught e, [Invoke (FullData get_fwersemail (lit ''Follower Emails''))], Some a')
        | (Exit n, a') \<Rightarrow>
            (Exited n, [Invoke (FullData get_fwersemail (lit ''Follower Emails''))], Some a'))"
    by blast

  have p4: "lit ''help'' \<noteq> []" by simp
  have p5: "map_of commands (lit ''help'') = Some PrintCommands"
    by (simp add: commands_def)
  note tp = single_command_mode [where E = sample_env
      and a = "sample_args (lit ''abc123'') (Some (lit ''help''))" and ?api0.0 = ?api
      and c = "lit ''help''" and f = PrintCommands and inputs = "[]"]
  from tp a1 a2 a3 p4 p5 have cp:
    "main sample_env (sample_args (lit ''abc123'') (Some (lit ''help''))) [] =
       (Returned,
        Invoke PrintCommands #
          concat (map (\<lambda>(cmd, desc). [Printout (cmd @ TAB @ TAB) None, Print desc]) command_list),
        Some ?api)"
    by blast

  have e4: "lit ''exit'' \<noteq> []" by simp
  note te = single_command_mode [where E = sample_env
      and a = "sample_args (lit ''abc123'') (Some (lit ''exit''))" and ?api0.0 = ?api
      and c = "lit ''exit''" and f = SysExit and inputs = "[]"]
  from te a1 a2 a3 e4 commands_quit_exit(2) have ce:
    "main sample_env (sample_args (lit ''abc123'') (Some (lit ''exit''))) [] =
       (Exited 0, [Invoke SysExit], Some ?api)"
    by blast

  have di: "main sample_env (sample_args (lit ''abc123'') (Some (lit ''info'')))
      [Line (lit ''quit'')] =
     (Returned, [Invoke (Bound get_user_info)],
      Some \<lparr>writeFile = False, jsonDump = False, hidden = 1\<rparr>)"
    using ci by (simp add: sample_env_def sample_method_def)
  have df: "main sample_env (sample_args (lit ''abc123'') (Some (lit ''fwersemail''))) [] =
     (Returned,
      [Invoke (FullData get_fwersemail (lit ''Follower Emails'')),
       Printout (NL @ lit ''[+] Follower Emails:'' @ NL) (Some GREEN),
       Printout (lit ''  - ann@example.org'' @ NL) (Some CYAN),
       Printout (lit ''  - bob@example.org'' @ NL) (Some CYAN)],
      Some \<lparr>writeFile = False, jsonDump = False, hidden = 1\<rparr>)"
    using cf
    by (simp add: sample_env_def sample_method_def print_full_data_def printout_def lit_def)
  have dp: "fst (main sample_env (sample_args (lit ''abc123'') (Some (lit ''help''))) []) = Returned
     \<and> length (fst (snd (main sample_env (sample_args (lit ''abc123'') (Some (lit ''help''))) [])))
         = 51"
    using cp by (simp add: command_list_def)
  have db: "main sample_env ?b [Line (lit ''quit'')] =
     (Returned, [Printout (lit ''Unknown command: infos'' @ NL) (Some RED)], Some ?api)
     \<and> exit_status (fst (main sample_env ?b [Line (lit ''quit'')])) = Some 0"
    using cb by (simp add: lit_def)
  from di ci' df dp ce db show ?thesis
    by blast
qed

text \<open>
  C7 as stated fails in two ways. A registered command need not return: \<^verbatim>\<open>-c quit\<close> calls
  \<^verbatim>\<open>sys.exit\<close>, so \<^verbatim>\<open>main\<close> does not return but the process exits from inside the call,
  and \<^verbatim>\<open>-c captions\<close> ends \<^verbatim>\<open>main\<close> with the exception the command raised. And the empty
  string: \<^verbatim>\<open>-c ''\<close> gives \<^verbatim>\<open>args.command = ''\<close>, which is no key of the registry, yet
  \<^verbatim>\<open>main\<close> prints no unknown-command message but enters the interactive loop, where it
  stands at the prompt or runs what the input holds.
\<close>

theorem single_command_counterexample:
  "map_of commands (lit ''quit'') = Some SysExit
   \<and> main sample_env (sample_args (lit ''abc123'') (Some (lit ''quit''))) [] =
       (Exited 0, [Invoke SysExit], Some \<lparr>writeFile = False, jsonDump = False, hidden = 0\<rparr>)
   \<and> fst (main sample_env (sample_args (lit ''abc123'') (Some (lit ''quit''))) []) \<noteq> Returned
   \<and> map_of commands (lit ''captions'') = Some (Bound get_captions)
   \<and> main sample_env (sample_args (lit ''abc123'') (Some (lit ''captions''))) [] =
       (Uncaught (lit ''no posts''), [Invoke (Bound get_captions)],
        Some \<lparr>writeFile = False, jsonDump = False, hidden = 0\<rparr>)
   \<and> args_command (sample_args (lit ''abc123'') (Some [])) = Some []
   \<and> map_of commands [] = None
   \<and> main sample_env (sample_args (lit ''abc123'') (Some [])) [] \<noteq>
       (Returned, [Printout (lit ''Unknown command: '' @ [] @ NL) (Some RED)],
        Some \<lparr>writeFile = False, jsonDump = False, hidden = 0\<rparr>)
   \<and> fst (main sample_env (sample_args (lit ''abc123'') (Some [])) []) = Running
   \<and> fst (main sample_env (sample_args (lit ''abc123'') (Some [])) [Line (lit ''quit'')]) = Exited 0
   \<and> invocations (fst (snd (main sample_env (sample_args (lit ''abc123'') (Some []))
        [Line (lit ''quit'')]))) = [SysExit]"
proof -
  let ?api = "\<lparr>writeFile = False, jsonDump = False, hidden = 0::nat\<rparr>"
  let ?a = "sample_args (lit ''abc123'') (Some [])"
  let ?s = "print_logo sample_env \<lparr>log = [], api = ?api\<rparr>"
  have a1: "isalnum (unicode_alnum sample_env) (args_id (sample_args (lit ''abc123'') c))" for c
    by (simp add: sample_args_def isalnum_examples)
  have a2: "Osintgram sample_env (sample_args (lit ''abc123'') c) = Return ?api" for c
    by (simp add: sample_env_def sample_args_def)
  have a3: "args_command (sample_args (lit ''abc123'') (Some c)) = Some c" for c
    by (simp add: sample_args_def)
  have nq: "lit ''quit'' \<noteq> []" by simp
  have q: "main sample_env (sample_args (lit ''abc123'') (Some (lit ''quit''))) [] =
       (Exited 0, [Invoke SysExit], Some ?api)"
    using main_registered [OF a1 a2 a3 nq commands_quit_exit(1), of "[]"]
    by (simp add: invoke_SysExit propagate_def)
  have hc: "map_of commands (lit ''captions'') = Some (Bound get_captions)"
    by (simp add: commands_def)
  have nc: "lit ''captions'' \<noteq> []" by simp
  have ic: "invoke sample_env (Bound get_captions) \<lparr>log = [], api = ?api\<rparr> =
      (Raise (lit ''no posts''), \<lparr>log = [Invoke (Bound get_captions)], api = ?api\<rparr>)"
    by (simp add: invoke_def sample_env_def sample_method_def)
  have c: "main sample_env (sample_args (lit ''abc123'') (Some (lit ''captions''))) [] =
       (Uncaught (lit ''no posts''), [Invoke (Bound get_captions)], Some ?api)"
    using main_registered [OF a1 a2 a3 nc hc, of "[]"] by (simp add: ic propagate_def)
  have m: "main sample_env ?a ins =
      (fst (run_loop sample_env ins ?s), log (snd (run_loop sample_env ins ?s)),
       Some (api (snd (run_loop sample_env ins ?s))))" for ins
    by (rule main_empty_command [OF a1 a2 a3])
  have sq: "strip (lit ''quit'') = lit ''quit''"
    by (simp add: strip_def lit_def isspace_def)
  have hq: "map_of commands (strip (lit ''quit'')) = Some SysExit"
    by (simp add: sq commands_quit_exit)
  have inv: "invocations (log ?s) = []"
    by (simp add: print_logo_def Let_def log_fold_printout del: fold_simps)
  have r: "run_loop sample_env [Line (lit ''quit'')] ?s =
      (Exited 0,
       \<lparr>log = log ?s @ [Printout (lit ''Run a command: '') (Some YELLOW), Invoke SysExit],
        api = api ?s\<rparr>)"
    by (simp add: loop_step_SysExit [OF hq])
  have e0: "fst (run_loop sample_env [] ?s) = Running" by simp
  have e1: "fst (main sample_env ?a []) = Running"
    by (simp only: m e0 fst_conv)
  have e2: "fst (main sample_env ?a [Line (lit ''quit'')]) = Exited 0"
    by (simp only: m r fst_conv)
  have e3: "invocations (fst (snd (main sample_env ?a [Line (lit ''quit'')]))) = [SysExit]"
    by (simp only: m r fst_conv snd_conv) (simp add: inv)
  from e1 have e4: "main sample_env ?a [] \<noteq>
       (Returned, [Printout (lit ''Unknown command: '' @ [] @ NL) (Some RED)], Some ?api)"
    by auto
  from q have q': "fst (main sample_env (sample_args (lit ''abc123'') (Some (lit ''quit''))) [])
      \<noteq> Returned"
    by simp
  from commands_quit_exit(1) q q' hc c a3 [of "[]"] commands_Nil e4 e1 e2 e3 show ?thesis
    by blast
qed

text \<open>
  C10: in single-command mode nothing catches what the command raises: when the callable
  of a registered name raises an ordinary exception, the exception leaves \<^verbatim>\<open>main\<close> and no
  error line is printed for it. The four directives are looked up in the registry like
  any other name and are not found: \<^verbatim>\<open>main\<close> prints \<^verbatim>\<open>Unknown command: \<close> with the
  directive and returns, and the collaborator is as the constructor left it.
\<close>

theorem single_command_uncaught:
  "(isalnum (unicode_alnum E) (args_id a) \<and> Osintgram E a = Return api0
      \<and> args_command a = Some c \<and> map_of commands c = Some f
      \<and> invoke E f \<lparr>log = [], api = api0\<rparr> = (Raise e, s') \<longrightarrow>
      main E a inputs = (Uncaught e, log s', Some (api s')))
   \<and> (isalnum (unicode_alnum E) (args_id b) \<and> Osintgram E b = Return api1
      \<and> args_command b = Some d
      \<and> d \<in> {lit ''FILE=y'', lit ''FILE=n'', lit ''JSON=y'', lit ''JSON=n''} \<longrightarrow>
      main E b inputs =
        (Returned, [Printout (lit ''Unknown command: '' @ d @ NL) (Some RED)], Some api1))"
proof -
  have reg: "main E a inputs = (Uncaught e, log s', Some (api s'))"
    if h: "isalnum (unicode_alnum E) (args_id a)" "Osintgram E a = Return api0"
      "args_command a = Some c" and f: "map_of commands c = Some f"
      and r: "invoke E f \<lparr>log = [], api = api0\<rparr> = (Raise e, s')"
  proof -
    from f have "c \<noteq> []" by (auto simp: commands_Nil)
    with h have "main E a inputs =
      (fst (single_command E c \<lparr>log = [], api = api0\<rparr>),
       log (snd (single_command E c \<lparr>log = [], api = api0\<rparr>)),
       Some (api (snd (single_command E c \<lparr>log = [], api = api0\<rparr>))))"
      by (rule main_single)
    with f r show ?thesis
      by (simp add: single_command_def propagate_def)
  qed
  have tog: "main E b inputs =
        (Returned, [Printout (lit ''Unknown command: '' @ d @ NL) (Some RED)], Some api1)"
    if h: "isalnum (unicode_alnum E) (args_id b)" "Osintgram E b = Return api1"
      "args_command b = Some d"
      and d: "d \<in> {lit ''FILE=y'', lit ''FILE=n'', lit ''JSON=y'', lit ''JSON=n''}"
  proof -
    from d have n: "map_of commands d = None" by (auto simp: commands_toggles)
    from d have "d \<noteq> []" by auto
    with h have "main E b inputs =
      (fst (single_command E d \<lparr>log = [], api = api1\<rparr>),
       log (snd (single_command E d \<lparr>log = [], api = api1\<rparr>)),
       Some (api (snd (single_command E d \<lparr>log = [], api = api1\<rparr>))))"
      by (rule main_single)
    with n show ?thesis
      by (simp add: single_command_def)
  qed
  from reg tog show ?thesis by blast
qed

theorem single_command_uncaught_witness:
  "main sample_env (sample_args (lit ''abc123'') (Some (lit ''captions''))) [] =
     (Uncaught (lit ''no posts''), [Invoke (Bound get_captions)],
      Some \<lparr>writeFile = False, jsonDump = False, hidden = 0\<rparr>)
   \<and> main sample_env (sample_args (lit ''abc123'') (Some (lit ''FILE=y''))) [] =
     (Returned, [Printout (lit ''Unknown command: FILE=y'' @ NL) (Some RED)],
      Some \<lparr>writeFile = False, jsonDump = False, hidden = 0\<rparr>)"
proof -
  let ?a = "sample_args (lit ''abc123'') (Some (lit ''captions''))"
  let ?b = "sample_args (lit ''abc123'') (Some (lit ''FILE=y''))"
  let ?api = "\<lparr>writeFile = False, jsonDump = False, hidden = 0::nat\<rparr>"
  let ?s' = "\<lparr>log = [Invoke (Bound get_captions)], api = ?api\<rparr>"
  have a1: "isalnum (unicode_alnum sample_env) (args_id ?a)"
    by (simp add: sample_args_def isalnum_examples)
  have a2: "Osintgram sample_env ?a = Return ?api"
    by (simp add: sample_env_def sample_args_def)
  have a3: "args_command ?a = Some (lit ''captions'')"
    by (simp add: sample_args_def)
  have a4: "map_of commands (lit ''captions'') = Some (Bound get_captions)"
    by (simp add: commands_def)
  have a5: "invoke sample_env (Bound get_captions) \<lparr>log = [], api = ?api\<rparr> =
      (Raise (lit ''no posts''), ?s')"
    by (simp add: invoke_def sample_env_def sample_method_def)
  have b1: "isalnum (unicode_alnum sample_env) (args_id ?b)"
    by (simp add: sample_args_def isalnum_examples)
  have b2: "Osintgram sample_env ?b = Return ?api"
    by (simp add: sample_env_def sample_args_def)
  have b3: "args_command ?b = Some (lit ''FILE=y'')"
    by (simp add: sample_args_def)
  have b4: "lit ''FILE=y'' \<in> {lit ''FILE=y'', lit ''FILE=n'', lit ''JSON=y'', lit ''JSON=n''}"
    by (rule insertI1)
  note t = single_command_uncaught [of sample_env ?a ?api "lit ''captions''" "Bound get_captions"
      "lit ''no posts''" ?s' "[]" ?b ?api "lit ''FILE=y''"]
  from t a1 a2 a3 a4 a5 have ca: "main sample_env ?a [] =
      (Uncaught (lit ''no posts''), log ?s', Some (api ?s'))"
    by blast
  from t b1 b2 b3 b4 have cb: "main sample_env ?b [] =
      (Returned, [Printout (lit ''Unknown command: '' @ lit ''FILE=y'' @ NL) (Some RED)], Some ?api)"
    by blast
  from ca cb show ?thesis
    by (simp add: lit_def)
qed

section \<open>Leaving the loop\<close>

lemma loop_step_Interrupt:
  "loop_step E Interrupt s =
     (Exited 0, printout (NL @ lit ''Goodbye!'' @ NL) (Some RED)
                  (printout (lit ''Run a command: '') (Some YELLOW) s))"
  by (simp add: loop_step_def try_body_Interrupt except_Exception_def)








text \<open>
  C9: the handler of the loop catches ordinary exceptions only. \<^verbatim>\<open>SystemExit\<close> raised in
  the body of the \<^verbatim>\<open>try\<close> passes through it: the process exits with that status and no
  error line is printed. So a line that strips to \<^verbatim>\<open>quit\<close> or \<^verbatim>\<open>exit\<close> ends the process
  with status 0 after the prompt and the call of \<^verbatim>\<open>sys.exit\<close>, and an interrupt at the
  prompt ends it with status 0 after the farewell; an ordinary exception, in contrast,
  is printed and the loop goes on.
\<close>

theorem exit_not_caught:
  "except_Exception (Exit n, s) = (Exited n, s)
   \<and> (fst (try_body E i s) = Exit n \<longrightarrow> loop_step E i s = (Exited n, snd (try_body E i s)))
   \<and> (fst (try_body E j s) = Raise e \<longrightarrow>
        loop_step E j s =
          (Running, printout (lit ''Error: '' @ e @ NL) (Some RED) (snd (try_body E j s))))
   \<and> (strip l1 = lit ''quit'' \<longrightarrow>
        fst (loop_step E (Line l1) s) = Exited 0
        \<and> log (snd (loop_step E (Line l1) s)) =
            log s @ [Printout (lit ''Run a command: '') (Some YELLOW), Invoke SysExit]
        \<and> api (snd (loop_step E (Line l1) s)) = api s)
   \<and> (strip l2 = lit ''exit'' \<longrightarrow>
        fst (loop_step E (Line l2) s) = Exited 0
        \<and> log (snd (loop_step E (Line l2) s)) =
            log s @ [Printout (lit ''Run a command: '') (Some YELLOW), Invoke SysExit]
        \<and> api (snd (loop_step E (Line l2) s)) = api s)
   \<and> fst (loop_step E Interrupt s) = Exited 0
   \<and> log (snd (loop_step E Interrupt s)) =
        log s @ [Printout (lit ''Run a command: '') (Some YELLOW),
                 Printout (NL @ lit ''Goodbye!'' @ NL) (Some RED)]"
proof -
  have a: "fst (try_body E i s) = Exit n \<longrightarrow> loop_step E i s = (Exited n, snd (try_body E i s))"
    by (cases "try_body E i s") (simp add: loop_step_def except_Exception_def)
  have b: "fst (try_body E j s) = Raise e \<longrightarrow>
        loop_step E j s =
          (Running, printout (lit ''Error: '' @ e @ NL) (Some RED) (snd (try_body E j s)))"
    by (cases "try_body E j s") (simp add: loop_step_def except_Exception_def)
  have q: "fst (loop_step E (Line l) s) = Exited 0
        \<and> log (snd (loop_step E (Line l) s)) =
            log s @ [Printout (lit ''Run a command: '') (Some YELLOW), Invoke SysExit]
        \<and> api (snd (loop_step E (Line l) s)) = api s"
    if "map_of commands (strip l) = Some SysExit" for l
    using that
    by (simp add: loop_step_def try_body_Line dispatch_registered invoke_def except_Exception_def)
  have c: "except_Exception (Exit n, s) = (Exited n, s)"
    by (simp add: except_Exception_def)
  from a b c q [of l1] q [of l2] show ?thesis
    by (simp add: commands_quit_exit loop_step_Interrupt)
qed

theorem exit_not_caught_witness:
  "fst (try_body sample_env (Line (lit ''cache'')) sample_session) = Exit 3
   \<and> fst (loop_step sample_env (Line (lit ''cache'')) sample_session) = Exited 3
   \<and> fst (try_body sample_env EOF sample_session) = Raise (lit ''EOF when reading a line'')
   \<and> loop_step sample_env EOF sample_session =
       (Running,
        \<lparr>log = [Printout (lit ''Run a command: '') (Some YELLOW),
                Printout (lit ''Error: EOF when reading a line'' @ NL) (Some RED)],
         api = \<lparr>writeFile = False, jsonDump = False, hidden = 0\<rparr>\<rparr>)
   \<and> strip (lit ''quit '') = lit ''quit'' \<and> strip (lit '' exit'') = lit ''exit''
   \<and> loop_step sample_env (Line (lit ''quit '')) sample_session =
       (Exited 0,
        \<lparr>log = [Printout (lit ''Run a command: '') (Some YELLOW), Invoke SysExit],
         api = \<lparr>writeFile = False, jsonDump = False, hidden = 0\<rparr>\<rparr>)
   \<and> fst (loop_step sample_env (Line (lit '' exit'')) sample_session) = Exited 0"
proof -
  have sc: "strip (lit ''cache'') = lit ''cache''"
    by (simp add: strip_def lit_def isspace_def)
  have h1: "fst (try_body sample_env (Line (lit ''cache'')) sample_session) = Exit 3"
    by (simp add: try_body_Line sc dispatch_def commands_def invoke_def sample_env_def
        sample_method_def)
  have h2: "fst (try_body sample_env EOF sample_session) = Raise (lit ''EOF when reading a line'')"
    by (simp add: try_body_EOF)
  have h3: "strip (lit ''quit '') = lit ''quit''"
    by (simp add: strip_def lit_def isspace_def)
  have h4: "strip (lit '' exit'') = lit ''exit''"
    by (simp add: strip_def lit_def isspace_def)
  note t = exit_not_caught [of 3 sample_session sample_env "Line (lit ''cache'')" EOF
      "lit ''EOF when reading a line''" "lit ''quit ''" "lit '' exit''"]
  from t h1 have c1: "loop_step sample_env (Line (lit ''cache'')) sample_session =
      (Exited 3, snd (try_body sample_env (Line (lit ''cache'')) sample_session))"
    by blast
  from t h2 have c2: "loop_step sample_env EOF sample_session =
      (Running, printout (lit ''Error: '' @ lit ''EOF when reading a line'' @ NL) (Some RED)
         (snd (try_body sample_env EOF sample_session)))"
    by blast
  from t h3 have c3: "fst (loop_step sample_env (Line (lit ''quit '')) sample_session) = Exited 0
      \<and> log (snd (loop_step sample_env (Line (lit ''quit '')) sample_session)) =
          log sample_session @ [Printout (lit ''Run a command: '') (Some YELLOW), Invoke SysExit]
      \<and> api (snd (loop_step sample_env (Line (lit ''quit '')) sample_session)) = api sample_session"
    by blast
  from t h4 have c4: "fst (loop_step sample_env (Line (lit '' exit'')) sample_session) = Exited 0"
    by blast
  have c3': "loop_step sample_env (Line (lit ''quit '')) sample_session =
       (Exited 0,
        \<lparr>log = [Printout (lit ''Run a command: '') (Some YELLOW), Invoke SysExit],
         api = \<lparr>writeFile = False, jsonDump = False, hidden = 0\<rparr>\<rparr>)"
    using c3 by (cases "loop_step sample_env (Line (lit ''quit '')) sample_session")
      (simp add: sample_session_def)
  have c2': "loop_step sample_env EOF sample_session =
       (Running,
        \<lparr>log = [Printout (lit ''Run a command: '') (Some YELLOW),
                Printout (lit ''Error: EOF when reading a line'' @ NL) (Some RED)],
         api = \<lparr>writeFile = False, jsonDump = False, hidden = 0\<rparr>\<rparr>)"
    using c2 by (simp add: try_body_EOF sample_session_def printout_def lit_def)
  from h1 c1 h2 c2' h3 h4 c3' c4 show ?thesis by simp
qed

end
